theory Spec2Isabelle
  imports Complex_Main "HOL-Library.Sublist"
begin

section \<open>Conventions of the embedding\<close>

text \<open>
  The analysis layer of optiland (\<^verbatim>\<open>analysis.py\<close>, \<^verbatim>\<open>psf.py\<close>) is embedded
  shallowly: a one-dimensional numpy array is a list, a two-dimensional one a list of
  rows. Sample counts (\<^verbatim>\<open>num_points\<close>, \<^verbatim>\<open>num_rays\<close>, \<^verbatim>\<open>grid_size\<close>) are natural
  numbers. The ray tracer, the wavefront engine and the paraxial provider are not part of
  the analysed files; they enter as parameters. An exception of the source is a value
  \<open>Inl e\<close>.

  Numbers are treated in three ways, each where it is sound for what is proved.
  For the sampling grids, the distortion and the field-curvature analyzers and the unit
  conversion, whose properties below are about lengths, branches and exceptions, a
  number is a real; an optional real is \<open>None\<close> where numpy has divided by zero, and
  \<open>NonFinite\<close> marks a scalar result of that kind. For the spot diagram the arithmetic is
  a parameter. For the encircled energy and the normalization of the pupil amplitudes,
  whose properties depend on rounding, a number is a float64 number and the operations
  round as IEEE 754 prescribes.
\<close>

datatype error = ValueError | IndexError | KeyError | UnboundLocalError
  | ZeroDivisionError | NonFinite

text \<open>\<^verbatim>\<open>np.linspace(start, stop, num)\<close>: \<open>num\<close> samples, the step being
  \<open>(stop - start) / (num - 1)\<close>; a single sample is \<open>start\<close>.\<close>

definition np_linspace :: "real \<Rightarrow> real \<Rightarrow> nat \<Rightarrow> real list" where
  "np_linspace start stop num =
     map (\<lambda>i. start + real i * ((stop - start) / real (num - 1))) [0..<num]"

text \<open>\<^verbatim>\<open>np.zeros(n)\<close>, \<^verbatim>\<open>np.repeat(xs, 2)\<close> and \<^verbatim>\<open>np.tile(xs, reps)\<close>.\<close>

definition np_zeros :: "nat \<Rightarrow> real list" where
  "np_zeros n = replicate n 0"

definition np_repeat2 :: "'a list \<Rightarrow> 'a list" where
  "np_repeat2 xs = concat (map (\<lambda>v. [v, v]) xs)"

definition np_tile :: "'a list \<Rightarrow> nat \<Rightarrow> 'a list" where
  "np_tile xs reps = concat (replicate reps xs)"

text \<open>The slices \<^verbatim>\<open>a[::2]\<close> and \<^verbatim>\<open>a[1::2]\<close>.\<close>

fun slice_even :: "'a list \<Rightarrow> 'a list" where
  "slice_even [] = []"
| "slice_even [v] = [v]"
| "slice_even (v # w # vs) = v # slice_even vs"

fun slice_odd :: "'a list \<Rightarrow> 'a list" where
  "slice_odd [] = []"
| "slice_odd [v] = []"
| "slice_odd (v # w # vs) = w # slice_odd vs"

text \<open>An element-wise binary operation on two one-dimensional arrays, with numpy's
  broadcasting: equal lengths, or one operand of length one; any other pair of shapes
  raises \<^verbatim>\<open>ValueError\<close>.\<close>

definition np_map2 :: "('a \<Rightarrow> 'b \<Rightarrow> 'c) \<Rightarrow> 'a list \<Rightarrow> 'b list \<Rightarrow> error + 'c list" where
  "np_map2 f xs ys =
     (if length xs = length ys then Inr (map2 f xs ys)
      else if length xs = 1 then Inr (map (f (hd xs)) ys)
      else if length ys = 1 then Inr (map (\<lambda>v. f v (hd ys)) xs)
      else Inl ValueError)"

text \<open>Sequencing of computations that may raise.\<close>

definition bind_err :: "error + 'a \<Rightarrow> ('a \<Rightarrow> error + 'b) \<Rightarrow> error + 'b" where
  "bind_err m f = (case m of Inl e \<Rightarrow> Inl e | Inr v \<Rightarrow> f v)"

text \<open>The state the ray tracer leaves behind after a trace, read at the last (image)
  surface: \<^verbatim>\<open>surface_group.x[-1, :]\<close> and so on.\<close>

record surface_group =
  sg_x :: "real list"
  sg_y :: "real list"
  sg_z :: "real list"
  sg_L :: "real list"
  sg_M :: "real list"
  sg_N :: "real list"
  sg_energy :: "real list"


section \<open>Ray fan\<close>

text \<open>\<^verbatim>\<open>RayFan.__init__\<close>, lines 208-210:
  \<^verbatim>\<open>if num_points % 2 == 1: num_points += 1\<close>.\<close>

definition RayFan_num_points :: "nat \<Rightarrow> nat" where
  "RayFan_num_points num_points =
     (if num_points mod 2 = 1 then num_points + 1 else num_points)"

text \<open>The pupil grid \<^verbatim>\<open>data['Px']\<close> (and \<^verbatim>\<open>data['Py']\<close>) of
  \<^verbatim>\<open>RayFan._generate_data\<close>, and the index of the reference sample.\<close>

definition RayFan_Px :: "nat \<Rightarrow> real list" where
  "RayFan_Px num_points = np_linspace (-1) 1 (RayFan_num_points num_points)"

definition RayFan_ref_index :: "nat \<Rightarrow> nat" where
  "RayFan_ref_index num_points = RayFan_num_points num_points div 2"

section \<open>Field curvature\<close>

text \<open>The tracer called with explicit pupil coordinates:
  \<^verbatim>\<open>trace_generic(Hx, Hy, Px, Py, wavelength)\<close>. It may raise.\<close>

type_synonym generic_tracer =
  "real list \<Rightarrow> real list \<Rightarrow> real list \<Rightarrow> real list \<Rightarrow> real \<Rightarrow> error + surface_group"

text \<open>The four coordinate arrays \<open>(Hx, Hy, Px, Py)\<close> built at lines 506-510 (tangential)
  and 531-535 (sagittal). The repetition count of \<^verbatim>\<open>np.tile\<close> is the literal 128.\<close>

definition tangential_coords ::
  "nat \<Rightarrow> real \<Rightarrow> real list \<times> real list \<times> real list \<times> real list" where
  "tangential_coords num_points delta =
     (np_zeros (2 * num_points),
      np_repeat2 (np_linspace 0 1 num_points),
      np_zeros (2 * num_points),
      np_tile [- delta, delta] 128)"

definition sagittal_coords ::
  "nat \<Rightarrow> real \<Rightarrow> real list \<times> real list \<times> real list \<times> real list" where
  "sagittal_coords num_points delta =
     (np_zeros (2 * num_points),
      np_repeat2 (np_linspace 0 1 num_points),
      np_tile [- delta, delta] 128,
      np_zeros (2 * num_points))"

text \<open>A float division whose result may be non-finite: \<open>None\<close> is \<^verbatim>\<open>nan\<close> or
  \<^verbatim>\<open>inf\<close>.\<close>

definition np_div :: "real \<Rightarrow> real \<Rightarrow> real option" where
  "np_div a b = (if b = 0 then None else Some (a / b))"

text \<open>The closed-form intersection parameter of one ray pair, times \<open>N1\<close>:
  \<^verbatim>\<open>t1 = (M2*z01 - M2*z02 - N2*y01 + N2*y02) / (M1*N2 - M2*N1)\<close>, then
  \<^verbatim>\<open>t1 * N1\<close>.\<close>

definition pair_intersection ::
  "(real \<times> real \<times> real \<times> real) \<Rightarrow> (real \<times> real \<times> real \<times> real) \<Rightarrow> real option" where
  "pair_intersection r1 r2 =
     (case (r1, r2) of ((M1, N1, y01, z01), (M2, N2, y02, z02)) \<Rightarrow>
        map_option (\<lambda>t1. t1 * N1)
          (np_div (M2 * z01 - M2 * z02 - N2 * y01 + N2 * y02) (M1 * N2 - M2 * N1)))"

text \<open>The four arrays of a slice, element by element; arrays of one trace have one
  length.\<close>

definition ray_tuples ::
  "real list \<Rightarrow> real list \<Rightarrow> real list \<Rightarrow> real list \<Rightarrow> (real \<times> real \<times> real \<times> real) list" where
  "ray_tuples ms ns ps zs = zip ms (zip ns (zip ps zs))"

definition intersection_parabasal_tangential ::
  "generic_tracer \<Rightarrow> nat \<Rightarrow> real \<Rightarrow> real \<Rightarrow> error + real option list" where
  "intersection_parabasal_tangential trace_generic num_points wavelength delta =
     (case tangential_coords num_points delta of (Hx, Hy, Px, Py) \<Rightarrow>
        bind_err (trace_generic Hx Hy Px Py wavelength)
          (\<lambda>sg. np_map2 pair_intersection
             (slice_even (ray_tuples (sg_M sg) (sg_N sg) (sg_y sg) (sg_z sg)))
             (slice_odd (ray_tuples (sg_M sg) (sg_N sg) (sg_y sg) (sg_z sg)))))"

definition intersection_parabasal_sagittal ::
  "generic_tracer \<Rightarrow> nat \<Rightarrow> real \<Rightarrow> real \<Rightarrow> error + real option list" where
  "intersection_parabasal_sagittal trace_generic num_points wavelength delta =
     (case sagittal_coords num_points delta of (Hx, Hy, Px, Py) \<Rightarrow>
        bind_err (trace_generic Hx Hy Px Py wavelength)
          (\<lambda>sg. np_map2 pair_intersection
             (slice_even (ray_tuples (sg_L sg) (sg_N sg) (sg_x sg) (sg_z sg)))
             (slice_odd (ray_tuples (sg_L sg) (sg_N sg) (sg_x sg) (sg_z sg)))))"


section \<open>Physical units of the point-spread function\<close>

text \<open>What \<^verbatim>\<open>FFTPSF._get_psf_units\<close> reads from the optical system.\<close>

record optic =
  XPD :: real
  EPD :: real
  FNO :: real
  magnification :: real
  is_infinite :: bool

text \<open>An augmented assignment \<^verbatim>\<open>v *= e\<close> to a local variable: the variable is read
  first, and reading an unbound local raises \<^verbatim>\<open>UnboundLocalError\<close>.\<close>

definition aug_mul :: "real option \<Rightarrow> real \<Rightarrow> error + real" where
  "aug_mul v e = (case v of None \<Rightarrow> Inl UnboundLocalError | Some a \<Rightarrow> Inr (a * e))"

text \<open>\<^verbatim>\<open>FFTPSF._get_psf_units(image)\<close>, lines 181-199. The local \<open>FNO\<close> is assigned in
  the first branch only; the second branch multiplies it in place without an earlier
  assignment. \<open>Q\<close> divides two Python integers.\<close>

definition get_psf_units ::
  "optic \<Rightarrow> nat \<Rightarrow> nat \<Rightarrow> real list \<Rightarrow> nat \<times> nat \<Rightarrow> error + real \<times> real" where
  "get_psf_units opt grid_size num_rays wavelengths image_shape =
     (let D = XPD opt
      in bind_err
           (if is_infinite opt then Inr (FNO opt)
            else
              let p = D / EPD opt; m = magnification opt
              in aug_mul None (1 + \<bar>m\<bar> / p))
           (\<lambda>FNO_local.
              if num_rays = 0 then Inl ZeroDivisionError
              else
                let Q = real grid_size / real num_rays
                in case wavelengths of
                     [] \<Rightarrow> Inl IndexError
                   | w0 # _ \<Rightarrow>
                       if Q = 0 then Inl NonFinite
                       else
                         let dx = w0 * FNO_local / Q
                         in Inr (real (snd image_shape) * dx, real (fst image_shape) * dx)))"


section \<open>Distortion\<close>

text \<open>\<^verbatim>\<open>np.radians\<close>, and arithmetic on floats that may already be non-finite
  (\<open>None\<close>): a non-finite operand gives a non-finite result.\<close>

definition np_radians :: "real \<Rightarrow> real" where
  "np_radians d = d * pi / 180"

definition lift2 :: "(real \<Rightarrow> real \<Rightarrow> real) \<Rightarrow> real option \<Rightarrow> real option \<Rightarrow> real option" where
  "lift2 f a b = (case a of None \<Rightarrow> None | Some u \<Rightarrow> map_option (f u) b)"

definition div_opt :: "real option \<Rightarrow> real option \<Rightarrow> real option" where
  "div_opt a b =
     (case a of None \<Rightarrow> None | Some u \<Rightarrow> (case b of None \<Rightarrow> None | Some v \<Rightarrow> np_div u v))"

text \<open>The ideal image height \<^verbatim>\<open>const * np.tan(H * np.radians(max_field))\<close>.\<close>

definition ideal_height :: "real option \<Rightarrow> real \<Rightarrow> real \<Rightarrow> real option" where
  "ideal_height const max_field H = map_option (\<lambda>c. c * tan (H * np_radians max_field)) const"

text \<open>The calibration constant
  \<^verbatim>\<open>y / np.tan(1e-10 * np.radians(max_field))\<close>.\<close>

definition calibration :: "real \<Rightarrow> real \<Rightarrow> real option" where
  "calibration y0 max_field = np_div y0 (tan (1 / 10 ^ 10 * np_radians max_field))"

text \<open>The percentage \<^verbatim>\<open>100 * (yr - yp) / yp\<close> of one sample.\<close>

definition distortion_percent :: "real \<Rightarrow> real option \<Rightarrow> real option" where
  "distortion_percent r p = div_opt (map_option (\<lambda>v. 100 * (r - v)) p) p"

text \<open>The body of the loop of \<^verbatim>\<open>Distortion._generate_data\<close> (lines 360-377) for one
  wavelength. The scalar pupil coordinates \<^verbatim>\<open>Px=0, Py=0\<close> are passed as arrays of one
  element. The distortion type is examined here, inside the loop, after the trace.\<close>

definition Distortion_wavelength ::
  "generic_tracer \<Rightarrow> real \<Rightarrow> nat \<Rightarrow> string \<Rightarrow> real \<Rightarrow> error + real option list" where
  "Distortion_wavelength trace_generic max_field num_points distortion_type wavelength =
     (let Hx = np_zeros num_points; Hy = np_linspace (1 / 10 ^ 10) 1 num_points
      in bind_err (trace_generic Hx Hy [0] [0] wavelength)
           (\<lambda>sg.
              let yr = sg_y sg
              in case yr of
                   [] \<Rightarrow> Inl IndexError
                 | y0 # _ \<Rightarrow>
                     let const = calibration y0 max_field
                     in bind_err
                          (if distortion_type = ''f-tan''
                           then Inr (map (ideal_height const max_field) Hy)
                           else if distortion_type = ''f-theta''
                           then Inr (map (ideal_height const max_field) Hy)
                           else Inl ValueError)
                          (\<lambda>yp. np_map2 distortion_percent yr yp)))"

text \<open>The loop over the wavelengths: \<^verbatim>\<open>data.append(...)\<close> for each, the first
  exception ending it.\<close>

fun Distortion_loop ::
  "generic_tracer \<Rightarrow> real \<Rightarrow> nat \<Rightarrow> string \<Rightarrow> real list \<Rightarrow> real option list list
     \<Rightarrow> error + real option list list" where
  "Distortion_loop trace_generic max_field num_points distortion_type [] data = Inr data"
| "Distortion_loop trace_generic max_field num_points distortion_type (w # ws) data =
     bind_err (Distortion_wavelength trace_generic max_field num_points distortion_type w)
       (\<lambda>d. Distortion_loop trace_generic max_field num_points distortion_type ws (data @ [d]))"

text \<open>\<^verbatim>\<open>Distortion.__init__\<close> stores its arguments and sets
  \<^verbatim>\<open>self.data = self._generate_data()\<close>.\<close>

definition Distortion_generate_data ::
  "generic_tracer \<Rightarrow> real \<Rightarrow> real list \<Rightarrow> nat \<Rightarrow> string \<Rightarrow> error + real option list list" where
  "Distortion_generate_data trace_generic max_field wavelengths num_points distortion_type =
     Distortion_loop trace_generic max_field num_points distortion_type wavelengths []"

text \<open>Grids: \<^verbatim>\<open>np.meshgrid(extent, extent)\<close>, \<^verbatim>\<open>np.reshape(a, (n, n))\<close>, which
  raises unless \<open>a\<close> has \<open>n * n\<close> elements, \<^verbatim>\<open>np.flip\<close> of both axes, and
  \<^verbatim>\<open>np.max\<close>, which raises on an empty array and returns a non-finite value as soon
  as one entry is non-finite.\<close>

definition meshgrid_x :: "real list \<Rightarrow> real list list" where
  "meshgrid_x extent = replicate (length extent) extent"

definition meshgrid_y :: "real list \<Rightarrow> real list list" where
  "meshgrid_y extent = map (\<lambda>v. replicate (length extent) v) extent"

fun chunks :: "nat \<Rightarrow> nat \<Rightarrow> 'a list \<Rightarrow> 'a list list" where
  "chunks 0 n xs = []"
| "chunks (Suc k) n xs = take n xs # chunks k n (drop n xs)"

definition np_reshape :: "'a list \<Rightarrow> nat \<Rightarrow> error + 'a list list" where
  "np_reshape a n = (if length a = n * n then Inr (chunks n n a) else Inl ValueError)"

definition np_flip :: "'a list list \<Rightarrow> 'a list list" where
  "np_flip g = rev (map rev g)"

definition np_max_opt :: "real option list \<Rightarrow> error + real option" where
  "np_max_opt vs =
     (case vs of
        [] \<Rightarrow> Inl ValueError
      | v # vs' \<Rightarrow>
          Inr (if None \<in> set (v # vs') then None
               else Some (fold max (map the vs') (the v))))"

record grid_distortion =
  gd_xr :: "real list list"
  gd_yr :: "real list list"
  gd_xp :: "real option list list"
  gd_yp :: "real option list list"
  gd_max_distortion :: "real option"

text \<open>One grid point of \<^verbatim>\<open>100 * delta / rp\<close> with
  \<^verbatim>\<open>delta = sqrt((xp - xr)**2 + (yp - yr)**2)\<close> and
  \<^verbatim>\<open>rp = sqrt(xp**2 + yp**2)\<close>.\<close>

definition grid_percent :: "(real option \<times> real) \<times> (real option \<times> real) \<Rightarrow> real option" where
  "grid_percent q =
     (case q of ((xp, xr), (yp, yr)) \<Rightarrow>
        div_opt
          (lift2 (\<lambda>u v. 100 * sqrt ((u - xr)\<^sup>2 + (v - yr)\<^sup>2)) xp yp)
          (lift2 (\<lambda>u v. sqrt (u\<^sup>2 + v\<^sup>2)) xp yp))"

text \<open>\<^verbatim>\<open>GridDistortion._generate_data\<close>, lines 415-459: a reference trace, the ideal
  grid for the chosen distortion type, then the trace of the whole grid.\<close>

definition GridDistortion_generate_data ::
  "generic_tracer \<Rightarrow> real \<Rightarrow> real \<Rightarrow> nat \<Rightarrow> string \<Rightarrow> error + grid_distortion" where
  "GridDistortion_generate_data trace_generic max_field_optic wavelength num_points
       distortion_type =
     bind_err (trace_generic [0] [1 / 10 ^ 10] [0] [0] wavelength)
       (\<lambda>sg0.
          case sg_y sg0 of
            [] \<Rightarrow> Inl IndexError
          | y0 # _ \<Rightarrow>
              let const = calibration y0 max_field_optic;
                  max_field = sqrt 2 / 2;
                  extent = np_linspace (- max_field) max_field num_points;
                  Hx = meshgrid_x extent;
                  Hy = meshgrid_y extent
              in bind_err
                   (if distortion_type = ''f-tan''
                    then Inr (map (map (ideal_height const max_field_optic)) Hx,
                              map (map (ideal_height const max_field_optic)) Hy)
                    else if distortion_type = ''f-theta''
                    then Inr (map (map (ideal_height const max_field_optic)) Hx,
                              map (map (ideal_height const max_field_optic)) Hy)
                    else Inl ValueError)
                   (\<lambda>(xp, yp).
                      bind_err (trace_generic (concat Hx) (concat Hy) [0] [0] wavelength)
                        (\<lambda>sg.
                           bind_err (np_reshape (sg_x sg) num_points)
                             (\<lambda>xr.
                                bind_err (np_reshape (sg_y sg) num_points)
                                  (\<lambda>yr.
                                     let xp' = np_flip xp
                                     in bind_err
                                          (np_max_opt
                                             (map grid_percent
                                                (zip (zip (concat xp') (concat xr))
                                                     (zip (concat yp) (concat yr)))))
                                          (\<lambda>m. Inr \<lparr>gd_xr = xr, gd_yr = yr, gd_xp = xp',
                                                     gd_yp = yp, gd_max_distortion = m\<rparr>))))))"


section \<open>Loops that may raise\<close>

text \<open>Sequencing over a list: the first exception ends the loop.\<close>

fun map_err :: "('a \<Rightarrow> error + 'b) \<Rightarrow> 'a list \<Rightarrow> error + 'b list" where
  "map_err f [] = Inr []"
| "map_err f (v # vs) =
     bind_err (f v) (\<lambda>w. bind_err (map_err f vs) (\<lambda>ws. Inr (w # ws)))"


section \<open>Spot diagram\<close>

text \<open>
  The spot diagram keeps references to numpy arrays and its read operations work on
  copies that they change in place, so the arrays live in a store: an array object is
  an address, the store maps every address to the contents of its array and knows the
  next free address. \<^verbatim>\<open>self.data\<close> is a list (fields) of lists (wavelengths) of pairs
  \<^verbatim>\<open>[x, y]\<close> of array references. None of the operations below assigns
  \<^verbatim>\<open>self.data\<close> or changes one of its lists, so the analyzer itself is passed
  unchanged.

  The entries of the arrays are float64 numbers. Their arithmetic is not fixed here: the
  type \<open>'f\<close> of the entries and the numpy operations on them are parameters, so that
  what is proved below holds for float64 with its rounding, \<^verbatim>\<open>nan\<close> and
  \<^verbatim>\<open>inf\<close> as for any other arithmetic.
\<close>

record 'f arith =
  ar_mean :: "'f list \<Rightarrow> 'f"
  ar_sub :: "'f \<Rightarrow> 'f \<Rightarrow> 'f"
  ar_sqsum :: "'f \<Rightarrow> 'f \<Rightarrow> 'f"
  ar_sqrt :: "'f \<Rightarrow> 'f"
  ar_max :: "'f list \<Rightarrow> 'f"

text \<open>\<open>ar_mean\<close> is \<^verbatim>\<open>np.mean\<close> of an array, \<open>ar_sub a c\<close> is \<^verbatim>\<open>a - c\<close>,
  \<open>ar_sqsum u v\<close> is \<^verbatim>\<open>u**2 + v**2\<close>, \<open>ar_sqrt\<close> is \<^verbatim>\<open>np.sqrt\<close> and \<open>ar_max\<close>
  is \<^verbatim>\<open>np.max\<close> of an array that is not empty.\<close>

type_synonym addr = nat

record 'f store =
  st_cells :: "addr \<Rightarrow> 'f list"
  st_next :: addr

type_synonym wave_data = "addr \<times> addr"

record spot_diagram =
  sd_data :: "wave_data list list"
  sd_primary_index :: nat

text \<open>\<^verbatim>\<open>copy.deepcopy\<close>: every array reached is copied into a new array object, once
  (the memo keeps the copy of an object already met, so that two references to one
  array stay references to one array).\<close>

type_synonym memo = "(addr \<times> addr) list"

definition deepcopy_array :: "addr \<Rightarrow> 'f store \<times> memo \<Rightarrow> addr \<times> ('f store \<times> memo)" where
  "deepcopy_array a sm =
     (case sm of (s, m) \<Rightarrow>
        (case map_of m a of
           Some b \<Rightarrow> (b, (s, m))
         | None \<Rightarrow>
             (st_next s,
              (s\<lparr>st_cells := (st_cells s)(st_next s := st_cells s a),
                 st_next := Suc (st_next s)\<rparr>,
               (a, st_next s) # m))))"

definition deepcopy_wave ::
  "wave_data \<Rightarrow> 'f store \<times> memo \<Rightarrow> wave_data \<times> ('f store \<times> memo)" where
  "deepcopy_wave w sm =
     (case deepcopy_array (fst w) sm of (x', sm1) \<Rightarrow>
        (case deepcopy_array (snd w) sm1 of (y', sm2) \<Rightarrow> ((x', y'), sm2)))"

fun deepcopy_field ::
  "wave_data list \<Rightarrow> 'f store \<times> memo \<Rightarrow> wave_data list \<times> ('f store \<times> memo)" where
  "deepcopy_field [] sm = ([], sm)"
| "deepcopy_field (w # ws) sm =
     (case deepcopy_wave w sm of (w', sm1) \<Rightarrow>
        (case deepcopy_field ws sm1 of (ws', sm2) \<Rightarrow> (w' # ws', sm2)))"

fun deepcopy_data ::
  "wave_data list list \<Rightarrow> 'f store \<times> memo \<Rightarrow> wave_data list list \<times> ('f store \<times> memo)" where
  "deepcopy_data [] sm = ([], sm)"
| "deepcopy_data (f # fs) sm =
     (case deepcopy_field f sm of (f', sm1) \<Rightarrow>
        (case deepcopy_data fs sm1 of (fs', sm2) \<Rightarrow> (f' # fs', sm2)))"

definition deepcopy :: "wave_data list list \<Rightarrow> 'f store \<Rightarrow> wave_data list list \<times> 'f store" where
  "deepcopy d s = (case deepcopy_data d (s, []) of (d', (s', m)) \<Rightarrow> (d', s'))"

text \<open>\<^verbatim>\<open>SpotDiagram.centroid\<close>, lines 52-59.\<close>

definition centroid :: "'f arith \<Rightarrow> spot_diagram \<Rightarrow> 'f store \<Rightarrow> error + ('f \<times> 'f) list" where
  "centroid ar sd s =
     map_err (\<lambda>field_data.
        if sd_primary_index sd < length field_data
        then (case field_data ! sd_primary_index sd of
                (x, y) \<Rightarrow> Inr (ar_mean ar (st_cells s x), ar_mean ar (st_cells s y)))
        else Inl IndexError)
       (sd_data sd)"

text \<open>The in-place subtraction \<^verbatim>\<open>a -= c\<close> on the array at an address.\<close>

definition isub :: "'f arith \<Rightarrow> addr \<Rightarrow> 'f \<Rightarrow> 'f store \<Rightarrow> 'f store" where
  "isub ar a c s = s\<lparr>st_cells := (st_cells s)(a := map (\<lambda>v. ar_sub ar v c) (st_cells s a))\<rparr>"

text \<open>\<^verbatim>\<open>SpotDiagram._center_spots\<close>, lines 83-90. The argument is ignored: the
  method copies \<^verbatim>\<open>self.data\<close> itself and subtracts the centroids from the copy.\<close>

definition center_field :: "'f arith \<Rightarrow> 'f \<times> 'f \<Rightarrow> wave_data list \<Rightarrow> 'f store \<Rightarrow> 'f store" where
  "center_field ar c field_data s =
     fold (\<lambda>w s'. isub ar (snd w) (snd c) (isub ar (fst w) (fst c) s')) field_data s"

definition center_fields ::
  "'f arith \<Rightarrow> (wave_data list \<times> ('f \<times> 'f)) list \<Rightarrow> 'f store \<Rightarrow> 'f store" where
  "center_fields ar fcs s = fold (\<lambda>fc s'. center_field ar (snd fc) (fst fc) s') fcs s"

definition center_spots ::
  "'f arith \<Rightarrow> spot_diagram \<Rightarrow> 'f store \<Rightarrow> (error + wave_data list list) \<times> 'f store" where
  "center_spots ar sd s =
     (case centroid ar sd s of
        Inl e \<Rightarrow> (Inl e, s)
      | Inr centroids \<Rightarrow>
          (case deepcopy (sd_data sd) s of
             (data, s1) \<Rightarrow> (Inr data, center_fields ar (zip data centroids) s1)))"

text \<open>\<^verbatim>\<open>SpotDiagram.geometric_spot_radius\<close>, lines 61-70: the argument
  \<^verbatim>\<open>deepcopy(self.data)\<close> is evaluated, then \<^verbatim>\<open>_center_spots\<close> runs, then
  \<^verbatim>\<open>np.max(np.sqrt(x**2 + y**2))\<close> of every bundle; \<^verbatim>\<open>np.max\<close> raises on an empty
  array.\<close>

definition wave_radius_max :: "'f arith \<Rightarrow> 'f store \<Rightarrow> wave_data \<Rightarrow> error + 'f" where
  "wave_radius_max ar s w =
     bind_err
       (np_map2 (\<lambda>u v. ar_sqrt ar (ar_sqsum ar u v)) (st_cells s (fst w)) (st_cells s (snd w)))
       (\<lambda>r. if r = [] then Inl ValueError else Inr (ar_max ar r))"

definition geometric_spot_radius ::
  "'f arith \<Rightarrow> spot_diagram \<Rightarrow> 'f store \<Rightarrow> (error + 'f list list) \<times> 'f store" where
  "geometric_spot_radius ar sd s =
     (case deepcopy (sd_data sd) s of
        (arg, s0) \<Rightarrow>
          (case center_spots ar sd s0 of
             (Inl e, s1) \<Rightarrow> (Inl e, s1)
           | (Inr data, s1) \<Rightarrow> (map_err (map_err (wave_radius_max ar s1)) data, s1)))"

text \<open>\<^verbatim>\<open>SpotDiagram.rms_spot_radius\<close>, lines 72-81:
  \<^verbatim>\<open>np.sqrt(np.mean(x**2 + y**2))\<close> of every bundle.\<close>

definition wave_radius_rms :: "'f arith \<Rightarrow> 'f store \<Rightarrow> wave_data \<Rightarrow> error + 'f" where
  "wave_radius_rms ar s w =
     bind_err (np_map2 (ar_sqsum ar) (st_cells s (fst w)) (st_cells s (snd w)))
       (\<lambda>r2. Inr (ar_sqrt ar (ar_mean ar r2)))"

definition rms_spot_radius ::
  "'f arith \<Rightarrow> spot_diagram \<Rightarrow> 'f store \<Rightarrow> (error + 'f list list) \<times> 'f store" where
  "rms_spot_radius ar sd s =
     (case deepcopy (sd_data sd) s of
        (arg, s0) \<Rightarrow>
          (case center_spots ar sd s0 of
             (Inl e, s1) \<Rightarrow> (Inl e, s1)
           | (Inr data, s1) \<Rightarrow> (map_err (map_err (wave_radius_rms ar s1)) data, s1)))"

text \<open>A sequence of read operations on one analyzer; the store is what they leave
  behind (an operation that raises leaves the store it had reached).\<close>

datatype read_op = Centroid | GeometricSpotRadius | RmsSpotRadius

fun run_read :: "'f arith \<Rightarrow> spot_diagram \<Rightarrow> read_op \<Rightarrow> 'f store \<Rightarrow> 'f store" where
  "run_read ar sd Centroid s = s"
| "run_read ar sd GeometricSpotRadius s = snd (geometric_spot_radius ar sd s)"
| "run_read ar sd RmsSpotRadius s = snd (rms_spot_radius ar sd s)"

definition run_reads :: "'f arith \<Rightarrow> spot_diagram \<Rightarrow> read_op list \<Rightarrow> 'f store \<Rightarrow> 'f store" where
  "run_reads ar sd ops s = fold (run_read ar sd) ops s"

text \<open>A spot diagram of one field and one wavelength with two rays, used as an example
  below: the \<open>x\<close> array at address 0, the \<open>y\<close> array at address 1. The example is run
  with the exact arithmetic of the rational numbers.\<close>

definition example_spot :: spot_diagram where
  "example_spot = \<lparr>sd_data = [[(0, 1)]], sd_primary_index = 0\<rparr>"

definition example_store :: "'f list \<Rightarrow> 'f list \<Rightarrow> 'f store" where
  "example_store xs ys = \<lparr>st_cells = (\<lambda>a. [])(0 := xs, 1 := ys), st_next = 2\<rparr>"

definition example_arith :: "rat arith" where
  "example_arith =
     \<lparr>ar_mean = (\<lambda>vs. sum_list vs / of_nat (length vs)),
      ar_sub = (\<lambda>a c. a - c),
      ar_sqsum = (\<lambda>u v. u * u + v * v),
      ar_sqrt = (\<lambda>v. v),
      ar_max = (\<lambda>vs. fold max (tl vs) (hd vs))\<rparr>"


section \<open>Binary floating point\<close>

text \<open>
  The numbers of numpy are float64 numbers, the binary64 format of IEEE 754. A number of
  that format is a finite real \<open>Num a\<close> (with \<open>Num 0\<close> for \<^verbatim>\<open>+0.0\<close>), the negative
  zero, one of the two infinities, or \<^verbatim>\<open>nan\<close>. The arguments of the operations below
  are meant to be numbers of the format; their results are.
\<close>

datatype f64 = Num real | NegZero | PInf | NInf | NaN

text \<open>Rounding of a real to the nearest integer, a tie going to the even one.\<close>

definition rne :: "real \<Rightarrow> int" where
  "rne t = (let f = \<lfloor>t\<rfloor>; d = t - of_int f in
     if d < 1 / 2 then f else if 1 / 2 < d then f + 1 else if even f then f else f + 1)"

text \<open>The binary exponent \<open>e\<close> of a real \<open>x\<close> from \<open>2 powi (- 1022)\<close> up to
  \<open>2 powi 1026\<close>, that is \<open>2 powi e \<le> x < 2 powi (e + 1)\<close>, found by bisection on the
  eleven bits of \<open>e + 1022\<close>.\<close>

fun exp_search :: "nat \<Rightarrow> real \<Rightarrow> int" where
  "exp_search 0 y = 0"
| "exp_search (Suc k) y =
     (if 2 ^ (2 ^ k) \<le> y then 2 ^ k + exp_search k (y / 2 ^ (2 ^ k)) else exp_search k y)"

definition bin_exp :: "real \<Rightarrow> int" where
  "bin_exp x = exp_search 11 (x * 2 ^ 1022) - 1022"

text \<open>The distance between neighbouring float64 numbers around \<open>x\<close>: 52 bits below the
  leading bit of a normal number, and \<open>2 powi (- 1074)\<close> for the subnormal ones. \<open>rnd x\<close> is \<open>x\<close>
  rounded to the nearest multiple of it, ties to even; \<open>fl x\<close> is the float64 number that
  an operation with the exact result \<open>x\<close> returns in the default rounding mode: the
  rounded value, an infinity when that value is beyond the largest float64 number, and
  a zero with the sign of \<open>x\<close> when it is zero.\<close>

definition quantum :: "real \<Rightarrow> real" where
  "quantum x = (if \<bar>x\<bar> < 2 powi (- 1022) then 2 powi (- 1074) else 2 powi (bin_exp \<bar>x\<bar> - 52))"

definition rnd :: "real \<Rightarrow> real" where
  "rnd x = of_int (rne (x / quantum x)) * quantum x"

definition fl :: "real \<Rightarrow> f64" where
  "fl x = (if 2 powi 1024 \<le> \<bar>x\<bar> then (if 0 < x then PInf else NInf)
     else let y = rnd x in
       if 2 powi 1024 \<le> \<bar>y\<bar> then (if 0 < x then PInf else NInf)
       else if y = 0 \<and> x < 0 then NegZero else Num y)"

text \<open>The value of a finite number, the sign bit, and the zero and the infinity of a
  given sign.\<close>

definition fin :: "f64 \<Rightarrow> real option" where
  "fin x = (case x of Num a \<Rightarrow> Some a | NegZero \<Rightarrow> Some 0 | _ \<Rightarrow> None)"

definition neg_sign :: "f64 \<Rightarrow> bool" where
  "neg_sign x = (case x of Num a \<Rightarrow> a < 0 | NegZero \<Rightarrow> True | NInf \<Rightarrow> True | _ \<Rightarrow> False)"

definition signed_zero :: "bool \<Rightarrow> f64" where
  "signed_zero s = (if s then NegZero else Num 0)"

definition signed_inf :: "bool \<Rightarrow> f64" where
  "signed_inf s = (if s then NInf else PInf)"

text \<open>Addition: \<^verbatim>\<open>nan\<close> propagates, infinities of opposite sign give \<^verbatim>\<open>nan\<close>, the sum
  of two negative zeros is the negative zero, and any other sum of finite numbers is the
  exact sum, rounded (an exact sum of zero is \<^verbatim>\<open>+0.0\<close>). Subtraction adds the negated
  number.\<close>

definition f64_add :: "f64 \<Rightarrow> f64 \<Rightarrow> f64" where
  "f64_add x y =
     (if x = NaN \<or> y = NaN then NaN
      else case (fin x, fin y) of
        (Some a, Some b) \<Rightarrow> if x = NegZero \<and> y = NegZero then NegZero else fl (a + b)
      | (Some a, None) \<Rightarrow> y
      | (None, Some b) \<Rightarrow> x
      | (None, None) \<Rightarrow> if x = y then x else NaN)"

definition f64_neg :: "f64 \<Rightarrow> f64" where
  "f64_neg x = (case x of Num a \<Rightarrow> if a = 0 then NegZero else Num (- a)
     | NegZero \<Rightarrow> Num 0 | PInf \<Rightarrow> NInf | NInf \<Rightarrow> PInf | NaN \<Rightarrow> NaN)"

definition f64_sub :: "f64 \<Rightarrow> f64 \<Rightarrow> f64" where
  "f64_sub x y = f64_add x (f64_neg y)"

text \<open>Multiplication and division: the sign of the result is the exclusive or of the
  signs; zero times infinity, zero by zero and infinity by infinity are \<^verbatim>\<open>nan\<close>; a
  non-zero number divided by zero is an infinity (numpy warns and goes on).\<close>

definition f64_mul :: "f64 \<Rightarrow> f64 \<Rightarrow> f64" where
  "f64_mul x y =
     (if x = NaN \<or> y = NaN then NaN
      else let s = (neg_sign x \<noteq> neg_sign y) in
        case (fin x, fin y) of
          (Some a, Some b) \<Rightarrow> if a * b = 0 then signed_zero s else fl (a * b)
        | (Some a, None) \<Rightarrow> if a = 0 then NaN else signed_inf s
        | (None, Some b) \<Rightarrow> if b = 0 then NaN else signed_inf s
        | (None, None) \<Rightarrow> signed_inf s)"

definition f64_div :: "f64 \<Rightarrow> f64 \<Rightarrow> f64" where
  "f64_div x y =
     (if x = NaN \<or> y = NaN then NaN
      else let s = (neg_sign x \<noteq> neg_sign y) in
        case (fin x, fin y) of
          (Some a, Some b) \<Rightarrow>
            if b = 0 then (if a = 0 then NaN else signed_inf s)
            else if a = 0 then signed_zero s else fl (a / b)
        | (Some a, None) \<Rightarrow> signed_zero s
        | (None, Some b) \<Rightarrow> signed_inf s
        | (None, None) \<Rightarrow> NaN)"

text \<open>The comparison \<^verbatim>\<open><=\<close>: false as soon as one side is \<^verbatim>\<open>nan\<close>; the two zeros are
  equal.\<close>

definition f64_le :: "f64 \<Rightarrow> f64 \<Rightarrow> bool" where
  "f64_le x y =
     (x \<noteq> NaN \<and> y \<noteq> NaN \<and>
      (x = NInf \<or> y = PInf \<or>
       (case (fin x, fin y) of (Some a, Some b) \<Rightarrow> a \<le> b | _ \<Rightarrow> False)))"


section \<open>Sums and means of arrays\<close>

text \<open>
  \<^verbatim>\<open>np.sum\<close> of a one-dimensional float64 array adds in the order of numpy's pairwise
  summation, which decides the rounding. Up to seven numbers are added one after the
  other to an accumulator that starts at zero. Up to 128 numbers are added in eight
  interleaved accumulators, which start as the first eight numbers and take the further
  numbers block by block; the accumulators are then added in pairs,
  \<^verbatim>\<open>((r0 + r1) + (r2 + r3)) + ((r4 + r5) + (r6 + r7))\<close>, and the numbers left after the
  last full block of eight are added one after the other. A longer array is split at
  half its length, rounded down to a multiple of eight, and the sums of the two parts
  are added. The result is added to the zero that the reduction starts from. The sum is
  parametrised by the addition and the zero so that the order can be studied on its own.
\<close>

definition combine8 :: "('a \<Rightarrow> 'a \<Rightarrow> 'a) \<Rightarrow> 'a \<Rightarrow> 'a list \<Rightarrow> 'a" where
  "combine8 add z r =
     (if length r = 8
      then add (add (add (r ! 0) (r ! 1)) (add (r ! 2) (r ! 3)))
               (add (add (r ! 4) (r ! 5)) (add (r ! 6) (r ! 7)))
      else z)"

definition pairwise_block :: "('a \<Rightarrow> 'a \<Rightarrow> 'a) \<Rightarrow> 'a \<Rightarrow> 'a list \<Rightarrow> 'a" where
  "pairwise_block add z xs =
     (let m = length xs - length xs mod 8;
          r = fold (\<lambda>blk r. map2 add r blk) (chunks (m div 8 - 1) 8 (drop 8 xs)) (take 8 xs)
      in foldl add (combine8 add z r) (drop m xs))"

function pairwise_sum :: "('a \<Rightarrow> 'a \<Rightarrow> 'a) \<Rightarrow> 'a \<Rightarrow> 'a list \<Rightarrow> 'a" where
  "pairwise_sum add z xs =
     (if length xs < 8 then foldl add z xs
      else if length xs \<le> 128 then pairwise_block add z xs
      else add (pairwise_sum add z (take (length xs div 2 - length xs div 2 mod 8) xs))
               (pairwise_sum add z (drop (length xs div 2 - length xs div 2 mod 8) xs)))"
  by pat_completeness auto
termination
  by (relation "measure (\<lambda>(add, z, xs). length xs)") auto

declare pairwise_sum.simps [simp del]

definition np_sum :: "f64 list \<Rightarrow> f64" where
  "np_sum xs = f64_add (Num 0) (pairwise_sum f64_add (Num 0) xs)"

text \<open>\<^verbatim>\<open>np.nansum\<close> replaces every \<^verbatim>\<open>nan\<close> by zero and sums; \<^verbatim>\<open>np.mean\<close> divides
  the sum by the number of entries (the mean of an empty array is \<^verbatim>\<open>nan\<close>).\<close>

definition nan_to_zero :: "f64 \<Rightarrow> f64" where
  "nan_to_zero e = (if e = NaN then Num 0 else e)"

definition np_nansum :: "f64 list \<Rightarrow> f64" where
  "np_nansum xs = np_sum (map nan_to_zero xs)"

definition np_mean :: "f64 list \<Rightarrow> f64" where
  "np_mean xs = f64_div (np_sum xs) (fl (real (length xs)))"


section \<open>Encircled energy\<close>

text \<open>\<^verbatim>\<open>EncircledEnergy._encircled_energy(radii, energy, radius_max)\<close>, line 166:
  \<^verbatim>\<open>np.nansum(energy[radii <= radius_max])\<close>. \<open>np_select\<close> is the indexing with the
  boolean mask \<^verbatim>\<open>radii <= radius_max\<close>; a mask of another length than the array
  raises \<^verbatim>\<open>IndexError\<close>. The local function \<^verbatim>\<open>vectorized_ee\<close> of lines 175 and 189 has
  the same body.\<close>

definition np_select :: "f64 list \<Rightarrow> f64 list \<Rightarrow> f64 \<Rightarrow> f64 list" where
  "np_select radii energy radius_max =
     map snd (filter (\<lambda>(r, e). f64_le r radius_max) (zip radii energy))"

definition encircled_energy :: "f64 list \<Rightarrow> f64 list \<Rightarrow> f64 \<Rightarrow> error + f64" where
  "encircled_energy radii energy radius_max =
     (if length radii \<noteq> length energy then Inl IndexError
      else Inr (np_nansum (np_select radii energy radius_max)))"

text \<open>For comparison, the sum that \<^verbatim>\<open>np.nansum\<close> approximates: the sum in exact
  arithmetic of the finite entries, \<^verbatim>\<open>nan\<close> counting as zero. An energy is admissible
  when it is a finite number that is not negative, or \<^verbatim>\<open>nan\<close> (a ray that was
  vignetted).\<close>

definition f64_real :: "f64 \<Rightarrow> real" where
  "f64_real v = (case v of Num a \<Rightarrow> a | _ \<Rightarrow> 0)"

definition exact_nansum :: "f64 list \<Rightarrow> real" where
  "exact_nansum xs = sum_list (map (\<lambda>e. f64_real (nan_to_zero e)) xs)"

definition nonneg_or_nan :: "f64 \<Rightarrow> bool" where
  "nonneg_or_nan e =
     (case e of Num a \<Rightarrow> 0 \<le> a | NegZero \<Rightarrow> True | NaN \<Rightarrow> True | _ \<Rightarrow> False)"

text \<open>Ten rays: the float64 numbers written \<^verbatim>\<open>0.36, 0.14, 0.0, 0.05, 0.98, 0.93, 0.79,
  0.53, 0.11, 0.66\<close> as energies, and the third ray alone at radius 2, the others at
  radius 1.\<close>

definition example_radii :: "f64 list" where
  "example_radii = [Num 1, Num 1, Num 2, Num 1, Num 1, Num 1, Num 1, Num 1, Num 1, Num 1]"

definition example_energy :: "f64 list" where
  "example_energy =
     [Num (3242591731706757 / 9007199254740992),
      Num (1261007895663739 / 9007199254740992), Num 0,
      Num (3602879701896397 / 72057594037927936),
      Num (2206763817411543 / 2251799813685248),
      Num (8376695306909123 / 9007199254740992),
      Num (889460926405673 / 1125899906842624),
      Num (2386907802506363 / 4503599627370496),
      Num (7926335344172073 / 72057594037927936),
      Num (5944751508129055 / 9007199254740992)]"


section \<open>Pupil function of the FFT point-spread function\<close>

text \<open>
  \<^verbatim>\<open>FFTPSF._generate_pupils\<close>, lines 99-115. \<^verbatim>\<open>self.data[0][k]\<close> is the pair of the
  optical path differences and the relative amplitudes of the pupil samples at
  wavelength \<open>k\<close>, delivered by the wavefront engine. The amplitude is divided by its
  mean, line 110; \<open>np_scale c A\<close> is the array \<^verbatim>\<open>c * A\<close>.
\<close>

definition np_scale :: "f64 \<Rightarrow> f64 list \<Rightarrow> f64 list" where
  "np_scale c A = map (f64_mul c) A"

definition normalized_amplitude :: "f64 list \<Rightarrow> f64 list" where
  "normalized_amplitude A = map (\<lambda>a. f64_div a (np_mean A)) A"

text \<open>A complex128 number is a pair of float64 numbers, multiplied as numpy does:
  \<^verbatim>\<open>(ar*br - ai*bi, ar*bi + ai*br)\<close>.\<close>

type_synonym c64 = "f64 \<times> f64"

definition c64_mul :: "c64 \<Rightarrow> c64 \<Rightarrow> c64" where
  "c64_mul u v =
     (f64_sub (f64_mul (fst u) (fst v)) (f64_mul (snd u) (snd v)),
      f64_add (f64_mul (fst u) (snd v)) (f64_mul (snd u) (fst v)))"

text \<open>One sample \<^verbatim>\<open>amplitude * np.exp(1j * 2 * np.pi * opd)\<close> of line 111. For a path
  difference of zero the exponent is zero, the exponential is \<^verbatim>\<open>1 + 0j\<close> and the
  sample is the product of the amplitude, as a complex number, with it. For any other
  path difference the value depends on the exponential and the trigonometric functions
  of the C library; it is the parameter \<open>ext\<close>.\<close>

definition pupil_sample :: "(f64 \<Rightarrow> f64 \<Rightarrow> c64) \<Rightarrow> f64 \<Rightarrow> f64 \<Rightarrow> c64" where
  "pupil_sample ext a p =
     (if p = Num 0 \<or> p = NegZero then c64_mul (a, Num 0) (Num 1, Num 0) else ext a p)"

text \<open>\<^verbatim>\<open>P[R <= 1] = values\<close> on an array \<open>P\<close> of zeros: the entries where the mask
  holds take the values in order. numpy accepts as many values as the mask has true
  entries, or a single value, and raises \<^verbatim>\<open>ValueError\<close> otherwise.\<close>

fun fill_mask :: "bool list \<Rightarrow> c64 list \<Rightarrow> c64 list" where
  "fill_mask [] vs = []"
| "fill_mask (False # ms) vs = (Num 0, Num 0) # fill_mask ms vs"
| "fill_mask (True # ms) [] = (Num 0, Num 0) # fill_mask ms []"
| "fill_mask (True # ms) (v # vs) = v # fill_mask ms vs"

definition np_mask_assign :: "bool list \<Rightarrow> c64 list \<Rightarrow> error + c64 list" where
  "np_mask_assign msk vs =
     (if length vs = length (filter id msk) then Inr (fill_mask msk vs)
      else if length vs = 1 then Inr (map (\<lambda>b. if b then hd vs else (Num 0, Num 0)) msk)
      else Inl ValueError)"

text \<open>One pupil, lines 109-112. \<open>msk\<close> is the flattened boolean array \<^verbatim>\<open>R <= 1\<close> of the
  \<open>num_rays * num_rays\<close> grid points of lines 100-104; which points of the rim it holds
  depends on the rounding of \<^verbatim>\<open>np.linspace\<close> and \<^verbatim>\<open>np.sqrt\<close>, so it is a parameter.
  \<^verbatim>\<open>FFTPSF._generate_pupils\<close> makes one pupil per wavelength.\<close>

definition generate_pupil ::
  "(f64 \<Rightarrow> f64 \<Rightarrow> c64) \<Rightarrow> bool list \<Rightarrow> nat \<Rightarrow> f64 list \<times> f64 list
     \<Rightarrow> error + c64 list list" where
  "generate_pupil ext msk num_rays d =
     (case d of (opd, A) \<Rightarrow>
        bind_err (np_map2 (pupil_sample ext) (normalized_amplitude A) opd)
          (\<lambda>vs. bind_err (np_mask_assign msk vs) (\<lambda>P. np_reshape P num_rays)))"

definition generate_pupils ::
  "(f64 \<Rightarrow> f64 \<Rightarrow> c64) \<Rightarrow> bool list \<Rightarrow> nat \<Rightarrow> (f64 list \<times> f64 list) list
     \<Rightarrow> error + c64 list list list" where
  "generate_pupils ext msk num_rays data = map_err (generate_pupil ext msk num_rays) data"

text \<open>\<^verbatim>\<open>FFTPSF.__init__\<close>, lines 15-17: \<^verbatim>\<open>self.pupils = self._generate_pupils()\<close>, then
  \<^verbatim>\<open>self.psf = self._compute_psf()\<close>. \<^verbatim>\<open>_compute_psf\<close> reads \<^verbatim>\<open>self.pupils\<close> and the
  grid size and nothing else of the wavefront data; its Fourier transform is numpy's,
  so it is a parameter here.\<close>

definition FFTPSF_psf ::
  "(c64 list list list \<Rightarrow> error + 'p) \<Rightarrow> (f64 \<Rightarrow> f64 \<Rightarrow> c64) \<Rightarrow> bool list \<Rightarrow> nat
     \<Rightarrow> (f64 list \<times> f64 list) list \<Rightarrow> error + 'p" where
  "FFTPSF_psf compute_psf ext msk num_rays data =
     bind_err (generate_pupils ext msk num_rays data) compute_psf"

text \<open>The amplitudes for which a rescaling by \<open>2 powi k\<close> is studied below: a float64
  number that is zero, or that lies between \<open>2 powi (- 900)\<close> and \<open>2 powi 900\<close> together with its
  multiple.\<close>

definition amplitude_in_range :: "int \<Rightarrow> f64 \<Rightarrow> bool" where
  "amplitude_in_range k v =
     (case v of
        Num a \<Rightarrow> fl a = Num a \<and>
          (a = 0 \<or> (2 powi (- 900) \<le> a \<and> a \<le> 2 powi 900 \<and>
                    2 powi (- 900) \<le> a * 2 powi k \<and> a * 2 powi k \<le> 2 powi 900))
      | _ \<Rightarrow> False)"

text \<open>A pupil of three by three grid points: the mask of the five points in the unit
  circle, a wavefront without path difference, and a value for the samples with a path
  difference, of which there is none.\<close>

definition example_mask :: "bool list" where
  "example_mask = [False, True, False, True, True, True, False, True, False]"

definition example_opd :: "f64 list" where
  "example_opd = [Num 0, Num 0, Num 0, Num 0, Num 0]"

definition example_ext :: "f64 \<Rightarrow> f64 \<Rightarrow> c64" where
  "example_ext a p = (NaN, NaN)"


section \<open>Notions used in the proofs\<close>

text \<open>The order of a summation as a tree, and its value under a given addition.\<close>

datatype 'a sumtree = Leaf 'a | Node "'a sumtree" "'a sumtree"

fun eval_tree :: "('a \<Rightarrow> 'a \<Rightarrow> 'a) \<Rightarrow> 'a sumtree \<Rightarrow> 'a" where
  "eval_tree add (Leaf v) = v"
| "eval_tree add (Node l r) = add (eval_tree add l) (eval_tree add r)"

definition sum_tree :: "f64 list \<Rightarrow> f64 sumtree" where
  "sum_tree xs = Node (Leaf (Num 0)) (pairwise_sum Node (Leaf (Num 0)) (map Leaf xs))"

text \<open>A sum of numbers that are not negative is such a number or plus infinity.
  \<open>scaled_pair k j u u'\<close>: \<open>u\<close> is finite, \<open>u'\<close> is \<open>2 powi k\<close> times \<open>u\<close>, and both are
  zero or at least \<open>2 powi j\<close>.\<close>

definition nonneg_or_inf :: "f64 \<Rightarrow> bool" where
  "nonneg_or_inf v = (v = PInf \<or> (\<exists>s\<ge>0. v = Num s))"

definition scaled_pair :: "int \<Rightarrow> int \<Rightarrow> f64 \<Rightarrow> f64 \<Rightarrow> bool" where
  "scaled_pair k j u u' =
     (\<exists>s. u = Num s \<and> u' = Num (s * 2 powi k) \<and>
          (s = 0 \<or> (2 powi j \<le> s \<and> 2 powi j \<le> s * 2 powi k)))"


section \<open>Properties\<close>

subsection \<open>Sampling helpers\<close>

lemma length_np_linspace: "length (np_linspace a b n) = n"
  by (simp add: np_linspace_def)

lemma np_linspace_nth:
  "i < n \<Longrightarrow> np_linspace a b n ! i = a + real i * ((b - a) / real (n - 1))"
  by (simp add: np_linspace_def)

lemma length_np_tile: "length (np_tile xs reps) = reps * length xs"
  by (induction reps) (simp_all add: np_tile_def)

lemma length_np_repeat2: "length (np_repeat2 xs) = 2 * length xs"
  by (induction xs) (simp_all add: np_repeat2_def)

lemma even_RayFan_num_points: "even (RayFan_num_points n)"
  unfolding RayFan_num_points_def by presburger

lemma np_linspace_even_no_zero:
  assumes "even n"
  shows "0 \<notin> set (np_linspace (-1) 1 n)"
proof
  assume "0 \<in> set (np_linspace (-1) 1 n)"
  then obtain i where i: "i < n" and z: "-1 + real i * (2 / real (n - 1)) = 0"
    by (auto simp: np_linspace_def)
  from assms obtain k where "n = 2 * k" by (auto elim: evenE)
  with i have n2: "2 \<le> n" by simp
  then have pos: "real (n - 1) > 0" by simp
  from z have "real i * 2 = real (n - 1)"
    using pos by (simp add: field_simps)
  then have "2 * i = n - 1"
    by (metis mult.commute of_nat_eq_iff of_nat_mult of_nat_numeral)
  then have "odd n" using n2 by presburger
  with assms show False by simp
qed


subsection \<open>Ray fan: the reference sample\<close>

text \<open>
  Claim C4. The claim says that the sample count is forced to an even value and that
  the pupil grid of that many samples, spaced linearly from -1 to 1, holds a sample
  exactly at pupil coordinate 0, namely the reference sample at index
  \<open>num_points // 2\<close>. The count is indeed forced even, but an even number of samples
  from -1 to 1 has no sample at 0: for every requested count the grid misses 0, and the
  reference sample of a non-empty grid sits at \<open>1 / (num_points - 1)\<close>. The source
  comment reads "force to be odd so a point lies at P=0".
\<close>

theorem RayFan_grid_misses_zero:
  "even (RayFan_num_points num_points)
   \<and> 0 \<notin> set (RayFan_Px num_points)
   \<and> (RayFan_Px num_points = []
      \<or> RayFan_Px num_points ! RayFan_ref_index num_points
          = 1 / real (RayFan_num_points num_points - 1))"
proof -
  let ?n = "RayFan_num_points num_points"
  have ev: "even ?n" by (rule even_RayFan_num_points)
  have nz: "0 \<notin> set (RayFan_Px num_points)"
    unfolding RayFan_Px_def using ev by (rule np_linspace_even_no_zero)
  have ref: "RayFan_Px num_points = []
      \<or> RayFan_Px num_points ! RayFan_ref_index num_points = 1 / real (?n - 1)"
  proof (cases "?n = 0")
    case True
    then show ?thesis by (simp add: RayFan_Px_def np_linspace_def)
  next
    case False
    from ev obtain k where k: "?n = 2 * k" by (auto elim: evenE)
    with False have k1: "1 \<le> k" by simp
    with k have n2: "2 \<le> ?n" by simp
    then have lt: "?n div 2 < ?n" by simp
    have "np_linspace (-1) 1 ?n ! (?n div 2) = -1 + real (?n div 2) * (2 / real (?n - 1))"
      using np_linspace_nth [OF lt, of "-1" 1] by simp
    also have "\<dots> = 1 / real (?n - 1)"
      using k1 unfolding k by (simp add: field_simps of_nat_diff)
    finally show ?thesis by (simp add: RayFan_Px_def RayFan_ref_index_def)
  qed
  from ev nz ref show ?thesis by blast
qed

text \<open>The default request of 256 samples: no forcing, and the reference sample at
  index 128 is at 1/255.\<close>

theorem RayFan_grid_misses_zero_default:
  "RayFan_num_points 256 = 256
   \<and> 0 \<notin> set (RayFan_Px 256)
   \<and> RayFan_Px 256 ! RayFan_ref_index 256 = 1 / 255"
proof -
  have n: "RayFan_num_points 256 = 256" by (simp add: RayFan_num_points_def)
  have "RayFan_Px 256 \<noteq> []"
    by (simp add: RayFan_Px_def n np_linspace_def)
  with RayFan_grid_misses_zero [of 256] n show ?thesis by simp
qed


subsection \<open>Field curvature: the pupil offsets\<close>

text \<open>Whatever the number of field heights, three coordinate arrays have twice that
  length and the array of pupil offsets has length 256.\<close>

lemma FieldCurvature_coords_length:
  "(case tangential_coords num_points delta of (Hx, Hy, Px, Py) \<Rightarrow>
      length Hx = 2 * num_points \<and> length Hy = 2 * num_points
      \<and> length Px = 2 * num_points \<and> length Py = 256)
   \<and> (case sagittal_coords num_points delta of (Hx, Hy, Px, Py) \<Rightarrow>
      length Hx = 2 * num_points \<and> length Hy = 2 * num_points
      \<and> length Px = 256 \<and> length Py = 2 * num_points)"
  by (simp add: tangential_coords_def sagittal_coords_def np_zeros_def
      length_np_repeat2 length_np_linspace length_np_tile)

text \<open>
  Claim C3. The claim says that for every configured \<open>num_points\<close> the traced
  pupil-offset array has length \<open>2 * num_points\<close> and alternates \<open>-delta\<close>,
  \<open>+delta\<close>. The offset array is tiled 128 times whatever \<open>num_points\<close> is, so its
  length is always 256, while the three other coordinate arrays have length
  \<open>2 * num_points\<close>: with 64 field heights the tracer receives 128 field coordinates
  and 256 pupil offsets, in both the tangential and the sagittal pass.
\<close>

theorem FieldCurvature_offsets_64:
  "(case tangential_coords 64 delta of (Hx, Hy, Px, Py) \<Rightarrow>
      length Hx = 128 \<and> length Hy = 128 \<and> length Px = 128 \<and> length Py = 256)
   \<and> (case sagittal_coords 64 delta of (Hx, Hy, Px, Py) \<Rightarrow>
      length Hx = 128 \<and> length Hy = 128 \<and> length Px = 256 \<and> length Py = 128)"
  by (simp add: tangential_coords_def sagittal_coords_def np_zeros_def
      length_np_repeat2 length_np_linspace length_np_tile)


subsection \<open>Physical units: finite conjugates\<close>

text \<open>For an object at infinity the pixel size is
  \<open>wavelength * FNO / (grid_size / num_rays)\<close>, for every image shape.\<close>

lemma get_psf_units_infinite_object:
  assumes "is_infinite opt" and "0 < num_rays" and "0 < grid_size"
  shows "get_psf_units opt grid_size num_rays (w0 # ws) (rows, cols)
           = Inr (real cols * (w0 * FNO opt / (real grid_size / real num_rays)),
                  real rows * (w0 * FNO opt / (real grid_size / real num_rays)))"
  using assms by (simp add: get_psf_units_def bind_err_def Let_def)

text \<open>
  Claim C5. The claim says that for an object surface that is not at infinity
  \<^verbatim>\<open>_get_psf_units\<close> returns a result computed with the F-number scaled by
  \<open>1 + |m| / (XPD / EPD)\<close>. On that path the local \<open>FNO\<close> is multiplied in place
  before it was ever assigned, so the call raises \<^verbatim>\<open>UnboundLocalError\<close> for every
  optical system with a finite object distance, every grid and every image shape.
\<close>

theorem get_psf_units_finite_object_raises:
  "get_psf_units (opt\<lparr>is_infinite := False\<rparr>) grid_size num_rays wavelengths image_shape
     = Inl UnboundLocalError"
  by (simp add: get_psf_units_def aug_mul_def bind_err_def Let_def)


subsection \<open>Distortion: the two projection models\<close>

text \<open>
  Claim C2. For every tracer, optical system, wavelength list and sample count, the
  distortion analyzer and the grid-distortion analyzer return the same result (the same
  arrays, or the same exception) for distortion type "f-tan" as for "f-theta": the two
  branches compute the same ideal image height.
\<close>

theorem distortion_types_agree:
  "Distortion_generate_data trace_generic max_field wavelengths num_points ''f-tan''
     = Distortion_generate_data trace_generic max_field wavelengths num_points ''f-theta''
   \<and> GridDistortion_generate_data trace_generic max_field wavelength num_points ''f-tan''
     = GridDistortion_generate_data trace_generic max_field wavelength num_points ''f-theta''"
proof -
  have one: "Distortion_wavelength trace_generic max_field num_points ''f-tan'' w
      = Distortion_wavelength trace_generic max_field num_points ''f-theta'' w" for w
    by (simp add: Distortion_wavelength_def Let_def cong: list.case_cong)
  have "Distortion_loop trace_generic max_field num_points ''f-tan'' ws data
      = Distortion_loop trace_generic max_field num_points ''f-theta'' ws data" for ws data
    by (induction ws arbitrary: data) (simp_all add: one bind_err_def split: sum.splits)
  moreover have
    "GridDistortion_generate_data trace_generic max_field wavelength num_points ''f-tan''
     = GridDistortion_generate_data trace_generic max_field wavelength num_points ''f-theta''"
    by (simp add: GridDistortion_generate_data_def Let_def cong: list.case_cong)
  ultimately show ?thesis by (simp add: Distortion_generate_data_def)
qed


subsection \<open>Distortion: an unsupported projection model\<close>

text \<open>The check of the distortion type raises for one wavelength whenever the trace
  before it succeeded with at least one ray, and the grid analyzer raises whenever its
  reference trace did.\<close>

lemma Distortion_wavelength_unsupported:
  assumes "distortion_type \<noteq> ''f-tan''" "distortion_type \<noteq> ''f-theta''"
    and "trace_generic (np_zeros num_points) (np_linspace (1 / 10 ^ 10) 1 num_points)
           [0] [0] w = Inr sg"
    and "sg_y sg \<noteq> []"
  shows "Distortion_wavelength trace_generic max_field num_points distortion_type w
           = Inl ValueError"
  using assms
  by (simp add: Distortion_wavelength_def bind_err_def Let_def split: list.splits)

lemma GridDistortion_unsupported:
  assumes "distortion_type \<noteq> ''f-tan''" "distortion_type \<noteq> ''f-theta''"
    and "trace_generic [0] [1 / 10 ^ 10] [0] [0] wavelength = Inr sg"
    and "sg_y sg \<noteq> []"
  shows "GridDistortion_generate_data trace_generic max_field wavelength num_points
           distortion_type = Inl ValueError"
  using assms
  by (simp add: GridDistortion_generate_data_def bind_err_def Let_def split: list.splits)

text \<open>
  Claim C9. The claim says that constructing a distortion analyzer with a distortion
  type other than "f-tan" or "f-theta" raises \<^verbatim>\<open>ValueError\<close> during construction. The
  check sits inside the loop over the wavelengths, so with an empty wavelength list it
  is never reached: construction succeeds with empty data, whatever the distortion type.
\<close>

theorem Distortion_no_wavelength_no_check:
  "Distortion_generate_data trace_generic max_field [] num_points distortion_type = Inr []"
  by (simp add: Distortion_generate_data_def)


subsection \<open>Spot diagram: the read operations leave the stored arrays alone\<close>

text \<open>A deep copy allocates: it changes no array below the address \<open>base\<close> that was
  free when it started, and every reference of the copy is at or above \<open>base\<close>.\<close>

lemma deepcopy_array_frame:
  assumes "deepcopy_array a (s, m) = (b, (s', m'))"
    and "base \<le> st_next s" and "\<forall>p \<in> set m. base \<le> snd p"
  shows "st_next s \<le> st_next s' \<and> (\<forall>c < base. st_cells s' c = st_cells s c)
         \<and> base \<le> b \<and> (\<forall>p \<in> set m'. base \<le> snd p)"
proof (cases "map_of m a")
  case None
  with assms show ?thesis by (auto simp: deepcopy_array_def)
next
  case (Some b')
  then have "(a, b') \<in> set m" by (rule map_of_SomeD)
  with assms(3) have "base \<le> b'" by auto
  with Some assms show ?thesis by (auto simp: deepcopy_array_def)
qed

lemma deepcopy_wave_frame:
  assumes "deepcopy_wave w (s, m) = (w', (s', m'))"
    and "base \<le> st_next s" and "\<forall>p \<in> set m. base \<le> snd p"
  shows "st_next s \<le> st_next s' \<and> (\<forall>c < base. st_cells s' c = st_cells s c)
         \<and> base \<le> fst w' \<and> base \<le> snd w' \<and> (\<forall>p \<in> set m'. base \<le> snd p)"
proof -
  obtain x' s1 m1 where 1: "deepcopy_array (fst w) (s, m) = (x', (s1, m1))"
    by (metis prod.exhaust)
  obtain y' s2 m2 where 2: "deepcopy_array (snd w) (s1, m1) = (y', (s2, m2))"
    by (metis prod.exhaust)
  from assms(1) 1 2 have eq: "w' = (x', y')" "s' = s2" "m' = m2"
    by (simp_all add: deepcopy_wave_def)
  note f1 = deepcopy_array_frame [OF 1 assms(2,3)]
  from f1 assms(2) have b1: "base \<le> st_next s1" by simp
  note f2 = deepcopy_array_frame [OF 2 b1]
  from f1 f2 show ?thesis unfolding eq by auto
qed

lemma deepcopy_field_frame:
  assumes "deepcopy_field ws (s, m) = (ws', (s', m'))"
    and "base \<le> st_next s" and "\<forall>p \<in> set m. base \<le> snd p"
  shows "st_next s \<le> st_next s' \<and> (\<forall>c < base. st_cells s' c = st_cells s c)
         \<and> (\<forall>w \<in> set ws'. base \<le> fst w \<and> base \<le> snd w) \<and> (\<forall>p \<in> set m'. base \<le> snd p)"
  using assms
proof (induction ws arbitrary: s m ws' s' m')
  case Nil
  then show ?case by simp
next
  case (Cons w ws)
  obtain w1 s1 m1 where 1: "deepcopy_wave w (s, m) = (w1, (s1, m1))"
    by (metis prod.exhaust)
  obtain ws2 s2 m2 where 2: "deepcopy_field ws (s1, m1) = (ws2, (s2, m2))"
    by (metis prod.exhaust)
  from Cons.prems(1) 1 2 have eq: "ws' = w1 # ws2" "s' = s2" "m' = m2" by simp_all
  note f1 = deepcopy_wave_frame [OF 1 Cons.prems(2,3)]
  from f1 Cons.prems(2) have b1: "base \<le> st_next s1" by simp
  from f1 have mm: "\<forall>p \<in> set m1. base \<le> snd p" by simp
  note f2 = Cons.IH [OF 2 b1 mm]
  from f1 f2 show ?case unfolding eq by auto
qed

lemma deepcopy_data_frame:
  assumes "deepcopy_data d (s, m) = (d', (s', m'))"
    and "base \<le> st_next s" and "\<forall>p \<in> set m. base \<le> snd p"
  shows "st_next s \<le> st_next s' \<and> (\<forall>c < base. st_cells s' c = st_cells s c)
         \<and> (\<forall>f \<in> set d'. \<forall>w \<in> set f. base \<le> fst w \<and> base \<le> snd w)
         \<and> (\<forall>p \<in> set m'. base \<le> snd p)"
  using assms
proof (induction d arbitrary: s m d' s' m')
  case Nil
  then show ?case by simp
next
  case (Cons f fs)
  obtain f1 s1 m1 where 1: "deepcopy_field f (s, m) = (f1, (s1, m1))"
    by (metis prod.exhaust)
  obtain fs2 s2 m2 where 2: "deepcopy_data fs (s1, m1) = (fs2, (s2, m2))"
    by (metis prod.exhaust)
  from Cons.prems(1) 1 2 have eq: "d' = f1 # fs2" "s' = s2" "m' = m2" by simp_all
  note r1 = deepcopy_field_frame [OF 1 Cons.prems(2,3)]
  from r1 Cons.prems(2) have b1: "base \<le> st_next s1" by simp
  from r1 have mm: "\<forall>p \<in> set m1. base \<le> snd p" by simp
  note r2 = Cons.IH [OF 2 b1 mm]
  from r1 r2 show ?case unfolding eq by auto
qed

lemma deepcopy_frame:
  assumes "deepcopy d s = (d', s')"
  shows "st_next s \<le> st_next s' \<and> (\<forall>c < st_next s. st_cells s' c = st_cells s c)
         \<and> (\<forall>f \<in> set d'. \<forall>w \<in> set f. st_next s \<le> fst w \<and> st_next s \<le> snd w)"
proof -
  obtain d1 s1 m1 where 1: "deepcopy_data d (s, []) = (d1, (s1, m1))"
    by (metis prod.exhaust)
  with assms have eq: "d' = d1" "s' = s1" by (simp_all add: deepcopy_def)
  from deepcopy_data_frame [OF 1, of "st_next s"] show ?thesis unfolding eq by simp
qed

lemma isub_frame:
  "st_next (isub ar a c s) = st_next s \<and> (\<forall>b. b \<noteq> a \<longrightarrow> st_cells (isub ar a c s) b = st_cells s b)"
  by (simp add: isub_def)

lemma center_field_frame:
  assumes "\<forall>w \<in> set fd. base \<le> fst w \<and> base \<le> snd w"
  shows "st_next (center_field ar c fd s) = st_next s
         \<and> (\<forall>b < base. st_cells (center_field ar c fd s) b = st_cells s b)"
  using assms
proof (induction fd arbitrary: s)
  case Nil
  then show ?case by (simp add: center_field_def)
next
  case (Cons w fd)
  let ?s1 = "isub ar (snd w) (snd c) (isub ar (fst w) (fst c) s)"
  have step: "center_field ar c (w # fd) s = center_field ar c fd ?s1"
    by (simp add: center_field_def)
  have 1: "st_next ?s1 = st_next s \<and> (\<forall>b < base. st_cells ?s1 b = st_cells s b)"
    using Cons.prems by (auto simp: isub_def)
  from Cons.IH [of ?s1] Cons.prems 1 show ?case unfolding step by simp
qed

lemma center_fields_frame:
  assumes "\<forall>fc \<in> set fcs. \<forall>w \<in> set (fst fc). base \<le> fst w \<and> base \<le> snd w"
  shows "st_next (center_fields ar fcs s) = st_next s
         \<and> (\<forall>b < base. st_cells (center_fields ar fcs s) b = st_cells s b)"
  using assms
proof (induction fcs arbitrary: s)
  case Nil
  then show ?case by (simp add: center_fields_def)
next
  case (Cons fc fcs)
  let ?s1 = "center_field ar (snd fc) (fst fc) s"
  have step: "center_fields ar (fc # fcs) s = center_fields ar fcs ?s1"
    by (simp add: center_fields_def)
  have 1: "st_next ?s1 = st_next s \<and> (\<forall>b < base. st_cells ?s1 b = st_cells s b)"
    using Cons.prems by (intro center_field_frame) simp
  from Cons.IH [of ?s1] Cons.prems 1 show ?case unfolding step by simp
qed

lemma center_spots_frame:
  "st_next s \<le> st_next (snd (center_spots ar sd s))
   \<and> (\<forall>a < st_next s. st_cells (snd (center_spots ar sd s)) a = st_cells s a)"
proof (cases "centroid ar sd s")
  case (Inl e)
  then show ?thesis by (simp add: center_spots_def)
next
  case (Inr cs)
  obtain d1 s1 where 1: "deepcopy (sd_data sd) s = (d1, s1)" by (metis prod.exhaust)
  have eq: "snd (center_spots ar sd s) = center_fields ar (zip d1 cs) s1"
    using Inr 1 by (simp add: center_spots_def)
  note f = deepcopy_frame [OF 1]
  have "\<forall>fc \<in> set (zip d1 cs). \<forall>w \<in> set (fst fc). st_next s \<le> fst w \<and> st_next s \<le> snd w"
  proof
    fix fc assume "fc \<in> set (zip d1 cs)"
    then have "(fst fc, snd fc) \<in> set (zip d1 cs)" by simp
    then have "fst fc \<in> set d1" by (rule set_zip_leftD)
    with f show "\<forall>w \<in> set (fst fc). st_next s \<le> fst w \<and> st_next s \<le> snd w" by simp
  qed
  from center_fields_frame [where s = s1 and ar = ar, OF this] f show ?thesis unfolding eq by simp
qed

lemma geometric_spot_radius_frame:
  "st_next s \<le> st_next (snd (geometric_spot_radius ar sd s))
   \<and> (\<forall>a < st_next s. st_cells (snd (geometric_spot_radius ar sd s)) a = st_cells s a)"
proof -
  obtain d0 s0 where 0: "deepcopy (sd_data sd) s = (d0, s0)" by (metis prod.exhaust)
  have eq: "snd (geometric_spot_radius ar sd s) = snd (center_spots ar sd s0)"
    using 0 by (simp add: geometric_spot_radius_def split: prod.splits sum.splits)
  from deepcopy_frame [OF 0] center_spots_frame [of s0 ar sd] show ?thesis
    unfolding eq by auto
qed

lemma rms_spot_radius_frame:
  "st_next s \<le> st_next (snd (rms_spot_radius ar sd s))
   \<and> (\<forall>a < st_next s. st_cells (snd (rms_spot_radius ar sd s)) a = st_cells s a)"
proof -
  obtain d0 s0 where 0: "deepcopy (sd_data sd) s = (d0, s0)" by (metis prod.exhaust)
  have eq: "snd (rms_spot_radius ar sd s) = snd (center_spots ar sd s0)"
    using 0 by (simp add: rms_spot_radius_def split: prod.splits sum.splits)
  from deepcopy_frame [OF 0] center_spots_frame [of s0 ar sd] show ?thesis
    unfolding eq by auto
qed

lemma run_read_frame:
  "st_next s \<le> st_next (run_read ar sd op s)
   \<and> (\<forall>a < st_next s. st_cells (run_read ar sd op s) a = st_cells s a)"
  using geometric_spot_radius_frame [of s ar sd] rms_spot_radius_frame [of s ar sd]
  by (cases op) simp_all

lemma run_reads_frame:
  "st_next s \<le> st_next (run_reads ar sd ops s)
   \<and> (\<forall>a < st_next s. st_cells (run_reads ar sd ops s) a = st_cells s a)"
proof (induction ops arbitrary: s)
  case Nil
  then show ?case by (simp add: run_reads_def)
next
  case (Cons op ops)
  have step: "run_reads ar sd (op # ops) s = run_reads ar sd ops (run_read ar sd op s)"
    by (simp add: run_reads_def)
  from Cons.IH [of "run_read ar sd op s"] run_read_frame [of s ar sd op] show ?case
    unfolding step by auto
qed


text \<open>
  Claim C8. After any sequence of calls of \<^verbatim>\<open>centroid()\<close>,
  \<^verbatim>\<open>geometric_spot_radius()\<close> and \<^verbatim>\<open>rms_spot_radius()\<close>, every array that existed
  before the calls, hence every array that \<^verbatim>\<open>self.data\<close> refers to, has the contents
  it had before: the centroids are subtracted from arrays of a deep copy only.
\<close>

theorem reads_leave_data_unchanged:
  assumes "a < st_next s"
  shows "st_cells (run_reads ar sd ops s) a = st_cells s a"
  using run_reads_frame [of s ar sd ops] assms by simp

theorem reads_leave_data_unchanged_witness:
  "st_cells (run_reads example_arith example_spot
      [GeometricSpotRadius, Centroid, RmsSpotRadius]
      (example_store [0, 2] [0, 0])) 0 = [0, 2]"
  using reads_leave_data_unchanged [of 0 "example_store [0, 2] [0, 0]"
      example_arith example_spot "[GeometricSpotRadius, Centroid, RmsSpotRadius]"]
  by (simp add: example_store_def)


subsection \<open>Rounding to float64\<close>

text \<open>Powers of two, the rounding to an integer and the binary exponent; then the
  rounding of a normal number: its bounds, its commutation with a multiplication by a
  power of two, and its evaluation when the exponent is known.\<close>

lemma pow2_less_exp:
  assumes "(2::real) powi a \<le> y" "y < 2 powi b"
  shows "a < b"
proof (rule ccontr)
  assume "\<not> a < b"
  hence "b \<le> a" by simp
  hence "(2::real) powi b \<le> 2 powi a" by (intro power_int_increasing) simp_all
  with assms show False by simp
qed

lemma rne_of_int: "rne (of_int n) = n"
  by (simp add: rne_def Let_def)

lemma rne_floor: "\<lfloor>t\<rfloor> \<le> rne t \<and> rne t \<le> \<lfloor>t\<rfloor> + 1"
  by (simp add: rne_def Let_def)

lemma rne_ge:
  assumes "of_int n \<le> t"
  shows "n \<le> rne t"
proof -
  have "n \<le> \<lfloor>t\<rfloor>" using assms by (simp add: le_floor_iff)
  with rne_floor [of t] show ?thesis by linarith
qed

lemma rne_le:
  assumes "t \<le> of_int n"
  shows "rne t \<le> n"
proof (cases "t = of_int n")
  case True
  thus ?thesis by (simp add: rne_of_int)
next
  case False
  with assms have "t < of_int n" by simp
  hence "\<lfloor>t\<rfloor> < n" by (simp add: floor_less_iff)
  with rne_floor [of t] show ?thesis by linarith
qed

lemma exp_search_bounds:
  "1 \<le> y \<Longrightarrow> y < 2 ^ (2 ^ k) \<Longrightarrow>
     0 \<le> exp_search k y \<and> 2 powi (exp_search k y) \<le> y \<and> y < 2 powi (exp_search k y + 1)"
proof (induction k arbitrary: y)
  case 0
  thus ?case by simp
next
  case (Suc k)
  show ?case
  proof (cases "2 ^ (2 ^ k) \<le> y")
    case True
    define w where "w = y / 2 ^ (2 ^ k)"
    have y: "y = w * 2 ^ (2 ^ k)" by (simp add: w_def)
    have "1 \<le> w" using True by (simp add: w_def field_simps)
    moreover have "w < 2 ^ (2 ^ k)"
    proof -
      have "y < 2 ^ (2 ^ k) * 2 ^ (2 ^ k)"
        using Suc.prems(2) by (simp add: power_add [symmetric] mult_2)
      thus ?thesis by (simp add: w_def field_simps)
    qed
    ultimately have IH: "0 \<le> exp_search k w" "2 powi (exp_search k w) \<le> w"
      "w < 2 powi (exp_search k w + 1)"
      using Suc.IH [of w] by simp_all
    have e: "exp_search (Suc k) y = 2 ^ k + exp_search k w"
      using True by (simp add: w_def)
    have "(2::real) powi (2 ^ k) = 2 powi (int (2 ^ k))" by simp
    also have "\<dots> = 2 ^ (2 ^ k)" by (rule power_int_of_nat)
    finally have p0: "(2::real) powi (2 ^ k) = 2 ^ (2 ^ k)" .
    have p: "(2::real) powi (2 ^ k + j) = 2 powi j * 2 ^ (2 ^ k)" for j
      by (simp add: power_int_add p0)
    have "2 powi (exp_search k w) * 2 ^ (2 ^ k) \<le> w * 2 ^ (2 ^ k)"
      using IH(2) by (intro mult_right_mono) simp_all
    hence "2 powi (2 ^ k + exp_search k w) \<le> w * 2 ^ (2 ^ k)" by (simp only: p)
    hence "2 powi (exp_search (Suc k) y) \<le> y" by (simp only: e y [symmetric])
    moreover have "y < 2 powi (exp_search (Suc k) y + 1)"
    proof -
      have "w * 2 ^ (2 ^ k) < 2 powi (exp_search k w + 1) * 2 ^ (2 ^ k)"
        using IH(3) by (intro mult_strict_right_mono) simp_all
      hence "w * 2 ^ (2 ^ k) < 2 powi (2 ^ k + (exp_search k w + 1))" by (simp only: p)
      moreover have "2 ^ k + exp_search k w + 1 = 2 ^ k + (exp_search k w + 1)" by simp
      ultimately show ?thesis by (simp only: e y [symmetric])
    qed
    moreover have "0 \<le> exp_search (Suc k) y" unfolding e using IH(1) by simp
    ultimately show ?thesis by simp
  next
    case False
    thus ?thesis using Suc.IH [of y] Suc.prems(1) by simp
  qed
qed

lemma pow2_add: "(2::real) powi (a + b) = 2 powi a * 2 powi b"
  by (rule power_int_add) simp

lemma pow2_mult_le:
  assumes "2 powi a \<le> (x::real)"
  shows "2 powi (a + k) \<le> x * 2 powi k"
  unfolding pow2_add using assms by (intro mult_right_mono) simp_all

lemma pow2_mult_less:
  assumes "(x::real) < 2 powi a"
  shows "x * 2 powi k < 2 powi (a + k)"
  unfolding pow2_add using assms by (intro mult_strict_right_mono) simp_all

lemma bin_exp_eq:
  assumes "2 powi e \<le> x" "x < 2 powi (e + 1)" "- 1022 \<le> e" "e \<le> 1023"
  shows "bin_exp x = e"
proof -
  define c :: real where "c = 2 ^ 1022"
  have c: "c = 2 powi 1022" by (simp only: c_def power_int_numeral)
  define y :: real where "y = x * c"
  have lo: "2 powi (e + 1022) \<le> y"
    unfolding y_def c using assms(1) by (rule pow2_mult_le)
  have "y < 2 powi (e + 1 + 1022)"
    unfolding y_def c using assms(2) by (rule pow2_mult_less)
  moreover have "e + 1 + 1022 = e + 1023" by simp
  ultimately have hi: "y < 2 powi (e + 1023)" by (simp only:)
  have "(1::real) \<le> 2 powi (e + 1022)" using assms(3) by (intro one_le_power_int) simp_all
  with lo have y1: "1 \<le> y" by linarith
  have "(2::real) powi (e + 1023) \<le> 2 powi (int (2 ^ 11))"
    using assms(4) by (intro power_int_increasing) simp_all
  also have "\<dots> = 2 ^ (2 ^ 11)" by (rule power_int_of_nat)
  finally have "y < 2 ^ (2 ^ 11)" using hi by linarith
  from exp_search_bounds [OF y1 this]
  have b: "2 powi (exp_search 11 y) \<le> y" "y < 2 powi (exp_search 11 y + 1)" by simp_all
  from pow2_less_exp [OF b(1) hi] pow2_less_exp [OF lo b(2)]
  have "exp_search 11 y = e + 1022" by simp
  thus ?thesis by (simp only: bin_exp_def y_def c_def)
qed

lemma normal_exp_ex:
  assumes "2 powi (- 1022) \<le> (x::real)" "x < 2 powi 1024"
  obtains e where "- 1022 \<le> e" "e \<le> 1023" "2 powi e \<le> x" "x < 2 powi (e + 1)"
proof -
  define c :: real where "c = 2 ^ 1022"
  have c: "c = 2 powi 1022" by (simp only: c_def power_int_numeral)
  define y :: real where "y = x * c"
  define e where "e = exp_search 11 y - 1022"
  have "y * 2 powi (- 1022) = x * (2 powi 1022 * 2 powi (- 1022))"
    by (simp only: y_def c mult.assoc)
  also have "(2::real) powi 1022 * 2 powi (- 1022) = 2 powi (1022 + (- 1022))"
    by (rule pow2_add [symmetric])
  finally have x: "x = y * 2 powi (- 1022)" by simp
  have "2 powi (- 1022 + 1022) \<le> y"
    unfolding y_def c using assms(1) by (rule pow2_mult_le)
  hence y1: "1 \<le> y" by simp
  have "y < 2 powi (1024 + 1022)"
    unfolding y_def c using assms(2) by (rule pow2_mult_less)
  moreover have "(1024::int) + 1022 = 2046" by simp
  ultimately have y2: "y < 2 powi 2046" by (simp only:)
  have "(2::real) powi 2046 \<le> 2 powi (int (2 ^ 11))"
    by (intro power_int_increasing) simp_all
  also have "\<dots> = 2 ^ (2 ^ 11)" by (rule power_int_of_nat)
  finally have "y < 2 ^ (2 ^ 11)" using y2 by linarith
  from exp_search_bounds [OF y1 this]
  have b: "0 \<le> exp_search 11 y" "2 powi (exp_search 11 y) \<le> y"
    "y < 2 powi (exp_search 11 y + 1)" by simp_all
  have "2 powi (exp_search 11 y + (- 1022)) \<le> y * 2 powi (- 1022)"
    using b(2) by (rule pow2_mult_le)
  moreover have "exp_search 11 y + (- 1022) = e" by (simp add: e_def)
  ultimately have "2 powi e \<le> x" by (simp only: x [symmetric])
  moreover have "x < 2 powi (e + 1)"
  proof -
    have "y * 2 powi (- 1022) < 2 powi (exp_search 11 y + 1 + (- 1022))"
      using b(3) by (rule pow2_mult_less)
    moreover have "exp_search 11 y + 1 + (- 1022) = e + 1" by (simp add: e_def)
    ultimately show ?thesis by (simp only: x [symmetric])
  qed
  moreover have "- 1022 \<le> e" using b(1) by (simp add: e_def)
  moreover have "e \<le> 1023" using pow2_less_exp [OF b(2) y2] by (simp add: e_def)
  ultimately show ?thesis using that by blast
qed

lemma quantum_normal:
  assumes "2 powi e \<le> \<bar>x\<bar>" "\<bar>x\<bar> < 2 powi (e + 1)" "- 1022 \<le> e" "e \<le> 1023"
  shows "quantum x = 2 powi (e - 52)"
proof -
  have "(2::real) powi (- 1022) \<le> 2 powi e"
    using assms(3) by (intro power_int_increasing) simp_all
  with assms(1) have "\<not> \<bar>x\<bar> < 2 powi (- 1022)" by simp
  thus ?thesis by (simp add: quantum_def bin_exp_eq [OF assms])
qed

lemma rnd_normal:
  assumes "2 powi e \<le> \<bar>x\<bar>" "\<bar>x\<bar> < 2 powi (e + 1)" "- 1022 \<le> e" "e \<le> 1023"
  shows "rnd x = of_int (rne (x / 2 powi (e - 52))) * 2 powi (e - 52)"
  by (simp add: rnd_def quantum_normal [OF assms])

lemma rnd_bounds:
  assumes "2 powi e \<le> x" "x < 2 powi (e + 1)" "- 1022 \<le> e" "e \<le> 1023"
  shows "2 powi e \<le> rnd x" "rnd x \<le> 2 powi (e + 1)"
proof -
  define q :: real where "q = 2 powi (e - 52)"
  have q: "0 < q" by (simp add: q_def)
  have x0: "0 < x" using assms(1) zero_less_power_int [of "2::real" e] by linarith
  have "(2::real) powi (52 + (e - 52)) = 2 powi 52 * 2 powi (e - 52)"
    by (rule power_int_add) simp
  moreover have "52 + (e - 52) = e" by simp
  ultimately have e1: "2 powi e = 2 ^ 52 * q" by (simp only: q_def) simp
  have "(2::real) powi (53 + (e - 52)) = 2 powi 53 * 2 powi (e - 52)"
    by (rule power_int_add) simp
  moreover have "53 + (e - 52) = e + 1" by simp
  ultimately have e2: "2 powi (e + 1) = 2 ^ 53 * q" by (simp only: q_def) simp
  have r: "rnd x = of_int (rne (x / q)) * q"
    unfolding q_def using assms x0 by (intro rnd_normal) simp_all
  have "2 ^ 52 * q \<le> x" using assms(1) by (simp only: e1)
  hence "of_int (2 ^ 52) \<le> x / q" using q by (simp add: field_simps)
  hence "2 ^ 52 \<le> rne (x / q)" by (rule rne_ge)
  hence "real_of_int (2 ^ 52) \<le> real_of_int (rne (x / q))" by (simp only: of_int_le_iff)
  hence "(2 ^ 52 :: real) \<le> of_int (rne (x / q))" by simp
  thus "2 powi e \<le> rnd x" unfolding r e1 using q by (intro mult_right_mono) simp_all
  have "x < 2 ^ 53 * q" using assms(2) by (simp only: e2)
  hence "x / q \<le> of_int (2 ^ 53)" using q by (simp add: field_simps)
  hence "rne (x / q) \<le> 2 ^ 53" by (rule rne_le)
  hence "real_of_int (rne (x / q)) \<le> real_of_int (2 ^ 53)" by (simp only: of_int_le_iff)
  hence "of_int (rne (x / q)) \<le> (2 ^ 53 :: real)" by simp
  thus "rnd x \<le> 2 powi (e + 1)" unfolding r e2 using q by (intro mult_right_mono) simp_all
qed

lemma rnd_lower:
  assumes "- 1022 \<le> j" "2 powi j \<le> x" "x < 2 powi 1024"
  shows "2 powi j \<le> rnd x"
proof -
  have "(2::real) powi (- 1022) \<le> 2 powi j"
    using assms(1) by (intro power_int_increasing) simp_all
  with assms(2) have "2 powi (- 1022) \<le> x" by simp
  from normal_exp_ex [OF this assms(3)] obtain e where
    e: "- 1022 \<le> e" "e \<le> 1023" "2 powi e \<le> x" "x < 2 powi (e + 1)" by blast
  from pow2_less_exp [OF assms(2) e(4)] have "j \<le> e" by simp
  hence "(2::real) powi j \<le> 2 powi e" by (intro power_int_increasing) simp_all
  with rnd_bounds(1) [OF e(3) e(4) e(1) e(2)] show ?thesis by simp
qed

lemma rnd_pow2:
  assumes "- 1022 \<le> j" "j \<le> 1023"
  shows "rnd (2 powi j) = 2 powi j"
proof -
  have "(2::real) powi j < 2 powi (j + 1)" by (intro power_int_strict_increasing) simp_all
  hence "rnd (2 powi j) = of_int (rne (2 powi j / 2 powi (j - 52))) * 2 powi (j - 52)"
    using assms by (intro rnd_normal) simp_all
  moreover have d: "(2::real) powi j / 2 powi (j - 52) = of_int (2 ^ 52)"
    using power_int_add [of "2::real" 52 "j - 52"] by (simp add: field_simps)
  moreover have "(2::real) ^ 52 * 2 powi (j - 52) = 2 powi j"
    using power_int_add [of "2::real" 52 "j - 52"] by simp
  ultimately show ?thesis by (simp only: d rne_of_int) simp
qed

lemma rnd_upper:
  assumes "2 powi (- 1022) \<le> x" "x \<le> 2 powi j" "j \<le> 1023"
  shows "rnd x \<le> 2 powi j"
proof (cases "x = 2 powi j")
  case True
  have "- 1022 \<le> j"
  proof (rule ccontr)
    assume "\<not> - 1022 \<le> j"
    hence "(2::real) powi j < 2 powi (- 1022)" by (intro power_int_strict_increasing) simp_all
    with assms(1) True show False by simp
  qed
  thus ?thesis using True assms(3) by (simp add: rnd_pow2)
next
  case False
  with assms(2) have lt: "x < 2 powi j" by simp
  have "(2::real) powi j \<le> 2 powi 1024" using assms(3) by (intro power_int_increasing) simp_all
  with lt have "x < 2 powi 1024" by simp
  from normal_exp_ex [OF assms(1) this] obtain e where
    e: "- 1022 \<le> e" "e \<le> 1023" "2 powi e \<le> x" "x < 2 powi (e + 1)" by blast
  from pow2_less_exp [OF e(3) lt] have "e + 1 \<le> j" by simp
  hence "(2::real) powi (e + 1) \<le> 2 powi j" by (intro power_int_increasing) simp_all
  with rnd_bounds(2) [OF e(3) e(4) e(1) e(2)] show ?thesis by simp
qed

lemma rnd_scale:
  assumes "2 powi (- 1022) \<le> x" "x < 2 powi 1024"
    and "2 powi (- 1022) \<le> x * 2 powi k" "x * 2 powi k < 2 powi 1024"
  shows "rnd (x * 2 powi k) = rnd x * 2 powi k"
proof -
  from normal_exp_ex [OF assms(1,2)] obtain e where
    e: "- 1022 \<le> e" "e \<le> 1023" "2 powi e \<le> x" "x < 2 powi (e + 1)" by blast
  have x0: "0 < x" using e(3) zero_less_power_int [of "2::real" e] by linarith
  have lo: "2 powi (e + k) \<le> x * 2 powi k" using e(3) by (rule pow2_mult_le)
  have "x * 2 powi k < 2 powi (e + 1 + k)" using e(4) by (rule pow2_mult_less)
  moreover have "e + 1 + k = e + k + 1" by simp
  ultimately have hi: "x * 2 powi k < 2 powi (e + k + 1)" by (simp only:)
  from pow2_less_exp [OF assms(3) hi] have k1: "- 1022 \<le> e + k" by simp
  from pow2_less_exp [OF lo assms(4)] have k2: "e + k \<le> 1023" by simp
  have x0': "0 < x * 2 powi k" using x0 by simp
  have r1: "rnd x = of_int (rne (x / 2 powi (e - 52))) * 2 powi (e - 52)"
    using e x0 by (intro rnd_normal) simp_all
  have r2: "rnd (x * 2 powi k) =
      of_int (rne (x * 2 powi k / 2 powi (e + k - 52))) * 2 powi (e + k - 52)"
    using lo hi k1 k2 x0' by (intro rnd_normal) simp_all
  have "e + k - 52 = e - 52 + k" by simp
  hence q: "(2::real) powi (e + k - 52) = 2 powi (e - 52) * 2 powi k"
    by (simp only: pow2_add)
  show ?thesis unfolding r1 r2 q by simp
qed

lemma fl_zero: "fl 0 = Num 0"
  by (simp add: fl_def rnd_def rne_def)

lemma fl_pos:
  assumes "2 powi (- 1022) \<le> x" "fl x \<noteq> PInf"
  shows "fl x = Num (rnd x)" "x < 2 powi 1024" "rnd x < 2 powi 1024"
proof -
  have x0: "0 < x" using assms(1) zero_less_power_int [of "2::real" "- 1022"] by linarith
  show x: "x < 2 powi 1024" using assms(2) x0 by (auto simp: fl_def split: if_splits)
  have "2 powi (- 1022) \<le> rnd x" using assms(1) x by (intro rnd_lower) simp_all
  hence r0: "0 < rnd x" using zero_less_power_int [of "2::real" "- 1022"] by linarith
  show r: "rnd x < 2 powi 1024"
    using assms(2) x0 x r0 by (auto simp: fl_def Let_def split: if_splits)
  show "fl x = Num (rnd x)" using x0 x r r0 by (simp add: fl_def Let_def)
qed

lemma fl_eval:
  assumes "2 powi e \<le> x" "x < 2 powi (e + 1)" "- 1022 \<le> e" "e \<le> 1022"
    and "rne (x / 2 powi (e - 52)) = m"
  shows "fl x = Num (of_int m * 2 powi (e - 52))"
proof -
  have e: "e \<le> 1023" using assms(4) by simp
  have x0: "0 < x" using assms(1) zero_less_power_int [of "2::real" e] by linarith
  have "(2::real) powi (e + 1) \<le> 2 powi 1023"
    using assms(4) by (intro power_int_increasing) simp_all
  moreover have "(2::real) powi 1023 < 2 powi 1024" by (intro power_int_strict_increasing) simp_all
  ultimately have top: "(2::real) powi (e + 1) < 2 powi 1024" by linarith
  have x: "x < 2 powi 1024" using assms(2) top by linarith
  have r: "rnd x = of_int m * 2 powi (e - 52)"
    using rnd_normal [of e x] assms x0 e by simp
  have b: "2 powi e \<le> rnd x" "rnd x \<le> 2 powi (e + 1)"
    using rnd_bounds [OF assms(1,2,3) e] by simp_all
  have r0: "0 < rnd x" using b(1) zero_less_power_int [of "2::real" e] by linarith
  have r1: "rnd x < 2 powi 1024" using b(2) top by linarith
  show ?thesis using x0 x r0 r1 by (simp add: fl_def Let_def r [symmetric])
qed

lemma fin_simps [simp]:
  "fin (Num a) = Some a" "fin NegZero = Some 0" "fin PInf = None" "fin NInf = None" "fin NaN = None"
  by (simp_all add: fin_def)

lemma f64_add_Num: "f64_add (Num a) (Num b) = fl (a + b)"
  by (simp add: f64_add_def)

lemma quantum_pos: "0 < quantum x"
  by (simp add: quantum_def)

lemma rnd_nonneg:
  assumes "0 \<le> x"
  shows "0 \<le> rnd x"
proof -
  have "real_of_int 0 \<le> x / quantum x" using assms quantum_pos [of x] by simp
  hence "0 \<le> rne (x / quantum x)" by (rule rne_ge)
  thus ?thesis using quantum_pos [of x] by (simp add: rnd_def)
qed

lemma fl_nonneg:
  assumes "0 \<le> x"
  shows "fl x = PInf \<or> (\<exists>y\<ge>0. fl x = Num y)"
proof (cases "x = 0")
  case True
  thus ?thesis by (simp add: fl_zero)
next
  case False
  with assms have "0 < x" by simp
  thus ?thesis using rnd_nonneg [OF assms] by (simp add: fl_def Let_def)
qed

lemma fl_pos_finite:
  assumes "2 powi (- 1022) \<le> x" "x \<le> 2 powi j" "j \<le> 1023"
  shows "fl x = Num (rnd x)"
proof -
  have x0: "0 < x" using assms(1) zero_less_power_int [of "2::real" "- 1022"] by linarith
  have "(2::real) powi j \<le> 2 powi 1023" using assms(3) by (intro power_int_increasing) simp_all
  moreover have top: "(2::real) powi 1023 < 2 powi 1024"
    by (intro power_int_strict_increasing) simp_all
  ultimately have j: "(2::real) powi j < 2 powi 1024" by linarith
  hence x: "x < 2 powi 1024" using assms(2) by linarith
  have "rnd x \<le> 2 powi j" using assms by (rule rnd_upper)
  hence r: "rnd x < 2 powi 1024" using j by linarith
  have "2 powi (- 1022) \<le> rnd x" using assms(1) x by (intro rnd_lower) simp_all
  hence r0: "0 < rnd x" using zero_less_power_int [of "2::real" "- 1022"] by linarith
  show ?thesis using x0 x r r0 by (simp add: fl_def Let_def)
qed


subsection \<open>The order of a pairwise sum\<close>

text \<open>A map that commutes with the addition commutes with the pairwise sum, and a
  property that the addition preserves passes from the terms to the sum. So the sum of
  an array is the value of a tree whose leaves are terms of the array or the initial
  zero, and the tree of a mapped array is the mapped tree.\<close>

lemma map2_fusion:
  assumes "\<And>a b. h (f a b) = g (h a) (h b)"
  shows "map h (map2 f r blk) = map2 g (map h r) (map h blk)"
proof (induction r arbitrary: blk)
  case Nil
  show ?case by simp
next
  case (Cons a r)
  show ?case using Cons.IH assms by (cases blk) simp_all
qed

lemma fold_map2_fusion:
  assumes "\<And>a b. h (f a b) = g (h a) (h b)"
  shows "map h (fold (\<lambda>blk r. map2 f r blk) blocks r)
       = fold (\<lambda>blk r. map2 g r blk) (map (map h) blocks) (map h r)"
proof (induction blocks arbitrary: r)
  case Nil
  show ?case by simp
next
  case (Cons b blocks)
  show ?case using Cons.IH [of "map2 f r b"] map2_fusion [of h f g r b, OF assms] by simp
qed

lemma foldl_fusion:
  assumes "\<And>a b. h (f a b) = g (h a) (h b)"
  shows "h (foldl f z xs) = foldl g (h z) (map h xs)"
  by (induction xs arbitrary: z) (simp_all add: assms)

lemma combine8_fusion:
  assumes "\<And>a b. h (f a b) = g (h a) (h b)"
  shows "h (combine8 f z r) = combine8 g (h z) (map h r)"
  by (simp add: combine8_def assms)

lemma chunks_map: "chunks k n (map h xs) = map (map h) (chunks k n xs)"
  by (induction k arbitrary: xs) (simp_all add: take_map drop_map)

lemma pairwise_block_fusion:
  assumes "\<And>a b. h (f a b) = g (h a) (h b)"
  shows "h (pairwise_block f z xs) = pairwise_block g (h z) (map h xs)"
proof -
  define m where "m = length xs - length xs mod 8"
  define r where "r = fold (\<lambda>blk r. map2 f r blk) (chunks (m div 8 - 1) 8 (drop 8 xs)) (take 8 xs)"
  have r: "map h r = fold (\<lambda>blk r. map2 g r blk)
      (chunks (m div 8 - 1) 8 (drop 8 (map h xs))) (take 8 (map h xs))"
    unfolding r_def by (simp only: fold_map2_fusion [of h f g, OF assms] chunks_map take_map drop_map)
  have "h (pairwise_block f z xs) = h (foldl f (combine8 f z r) (drop m xs))"
    by (simp add: pairwise_block_def Let_def m_def r_def)
  also have "\<dots> = foldl g (combine8 g (h z) (map h r)) (drop m (map h xs))"
    by (simp only: foldl_fusion [of h f g, OF assms] combine8_fusion [of h f g, OF assms] drop_map)
  also have "\<dots> = pairwise_block g (h z) (map h xs)"
    by (simp add: pairwise_block_def Let_def m_def r)
  finally show ?thesis .
qed

lemma pairwise_sum_fusion:
  assumes "\<And>a b. h (f a b) = g (h a) (h b)"
  shows "h (pairwise_sum f z xs) = pairwise_sum g (h z) (map h xs)"
  using assms
proof (induction f z xs rule: pairwise_sum.induct)
  case (1 add z xs)
  note hom = "1.prems"
  show ?case
  proof (cases "length xs < 8")
    case True
    thus ?thesis
      by (simp add: pairwise_sum.simps [of _ _ xs] pairwise_sum.simps [of _ _ "map h xs"]
          foldl_fusion [of h add g, OF hom])
  next
    case False
    note big = this
    show ?thesis
    proof (cases "length xs \<le> 128")
      case True
      thus ?thesis using big
        by (simp add: pairwise_sum.simps [of _ _ xs] pairwise_sum.simps [of _ _ "map h xs"]
            pairwise_block_fusion [of h add g, OF hom])
    next
      case False
      thus ?thesis using big "1.IH" hom
        by (simp add: pairwise_sum.simps [of _ _ xs] pairwise_sum.simps [of _ _ "map h xs"]
            take_map drop_map)
    qed
  qed
qed

lemma foldl_inv:
  assumes "\<And>a b. Q a \<Longrightarrow> Q b \<Longrightarrow> Q (f a b)"
    and "Q z" "\<forall>x\<in>set xs. Q x"
  shows "Q (foldl f z xs)"
  using assms(2,3) by (induction xs arbitrary: z) (simp_all add: assms(1))

lemma map2_inv:
  assumes "\<And>a b. Q a \<Longrightarrow> Q b \<Longrightarrow> Q (f a b)"
    and "\<forall>x\<in>set r. Q x" "\<forall>x\<in>set blk. Q x"
  shows "\<forall>x\<in>set (map2 f r blk). Q x"
  using assms(2,3)
proof (induction r arbitrary: blk)
  case Nil
  show ?case by simp
next
  case (Cons a r)
  show ?case
  proof (cases blk)
    case Nil
    thus ?thesis by simp
  next
    case (Cons b blk')
    have "\<forall>x\<in>set (map2 f r blk'). Q x"
      using Cons.prems Cons by (intro Cons.IH) simp_all
    moreover have "Q (f a b)" using Cons.prems Cons by (intro assms(1)) simp_all
    ultimately show ?thesis using Cons by simp
  qed
qed

lemma fold_map2_inv:
  assumes "\<And>a b. Q a \<Longrightarrow> Q b \<Longrightarrow> Q (f a b)"
    and "\<forall>blk\<in>set blocks. \<forall>x\<in>set blk. Q x" "\<forall>x\<in>set r. Q x"
  shows "\<forall>x\<in>set (fold (\<lambda>blk r. map2 f r blk) blocks r). Q x"
  using assms(2,3)
proof (induction blocks arbitrary: r)
  case Nil
  thus ?case by simp
next
  case (Cons b blocks)
  have "\<forall>x\<in>set (map2 f r b). Q x"
    using Cons.prems by (intro map2_inv [of Q f, OF assms(1)]) simp_all
  thus ?case using Cons.IH [of "map2 f r b"] Cons.prems(1) by simp
qed

lemma set_chunks: "blk \<in> set (chunks k n xs) \<Longrightarrow> set blk \<subseteq> set xs"
proof (induction k arbitrary: xs)
  case 0
  thus ?case by simp
next
  case (Suc k)
  from Suc.prems have "blk = take n xs \<or> blk \<in> set (chunks k n (drop n xs))" by simp
  thus ?case
  proof
    assume "blk = take n xs"
    thus ?thesis by (simp add: set_take_subset)
  next
    assume "blk \<in> set (chunks k n (drop n xs))"
    from Suc.IH [OF this] set_drop_subset [of n xs] show ?thesis by blast
  qed
qed

lemma combine8_inv:
  assumes "\<And>a b. Q a \<Longrightarrow> Q b \<Longrightarrow> Q (f a b)"
    and "Q z" "\<forall>x\<in>set r. Q x"
  shows "Q (combine8 f z r)"
proof (cases "length r = 8")
  case True
  hence "\<forall>i<8. Q (r ! i)" using assms(3) by simp
  thus ?thesis using True by (simp add: combine8_def assms(1))
next
  case False
  thus ?thesis by (simp add: combine8_def assms(2))
qed

lemma pairwise_block_inv:
  assumes "\<And>a b. Q a \<Longrightarrow> Q b \<Longrightarrow> Q (f a b)"
    and "Q z" "\<forall>x\<in>set xs. Q x"
  shows "Q (pairwise_block f z xs)"
proof -
  define m where "m = length xs - length xs mod 8"
  define r where "r = fold (\<lambda>blk r. map2 f r blk) (chunks (m div 8 - 1) 8 (drop 8 xs)) (take 8 xs)"
  have sub: "set (take j xs) \<subseteq> set xs" "set (drop j xs) \<subseteq> set xs" for j
    by (simp_all add: set_take_subset set_drop_subset)
  have "\<forall>blk\<in>set (chunks (m div 8 - 1) 8 (drop 8 xs)). \<forall>x\<in>set blk. Q x"
    using set_chunks [of _ "m div 8 - 1" 8 "drop 8 xs"] sub(2) [of 8] assms(3) by blast
  moreover have "\<forall>x\<in>set (take 8 xs). Q x" using sub(1) [of 8] assms(3) by blast
  ultimately have "\<forall>x\<in>set r. Q x"
    unfolding r_def by (intro fold_map2_inv [of Q f, OF assms(1)])
  hence "Q (combine8 f z r)" by (intro combine8_inv [of Q f, OF assms(1)] assms(2))
  moreover have "\<forall>x\<in>set (drop m xs). Q x" using sub(2) [of m] assms(3) by blast
  ultimately have "Q (foldl f (combine8 f z r) (drop m xs))"
    by (intro foldl_inv [of Q f, OF assms(1)])
  thus ?thesis by (simp add: pairwise_block_def Let_def m_def r_def)
qed

lemma pairwise_sum_inv:
  assumes "\<And>a b. Q a \<Longrightarrow> Q b \<Longrightarrow> Q (f a b)"
    and "Q z" "\<forall>x\<in>set xs. Q x"
  shows "Q (pairwise_sum f z xs)"
  using assms
proof (induction f z xs rule: pairwise_sum.induct)
  case (1 add z xs)
  note cl = "1.prems"(1) and z = "1.prems"(2) and xs = "1.prems"(3)
  have sub: "\<forall>x\<in>set (take j xs). Q x" "\<forall>x\<in>set (drop j xs). Q x" for j
    using xs set_take_subset [of j xs] set_drop_subset [of j xs] by blast+
  show ?case
  proof (cases "length xs < 8")
    case True
    thus ?thesis
      using foldl_inv [of Q add, OF cl z xs] by (simp add: pairwise_sum.simps [of _ _ xs])
  next
    case False
    note big = this
    show ?thesis
    proof (cases "length xs \<le> 128")
      case True
      thus ?thesis using big pairwise_block_inv [of Q add, OF cl z xs]
        by (simp add: pairwise_sum.simps [of _ _ xs])
    next
      case False
      have "Q (pairwise_sum add z (take (length xs div 2 - length xs div 2 mod 8) xs))"
        using big False by (intro "1.IH"(1) cl z sub) simp_all
      moreover have "Q (pairwise_sum add z (drop (length xs div 2 - length xs div 2 mod 8) xs))"
        using big False by (intro "1.IH"(2) cl z sub) simp_all
      ultimately show ?thesis using big False
        by (simp add: pairwise_sum.simps [of _ _ xs] cl)
    qed
  qed
qed

lemma np_sum_tree: "np_sum xs = eval_tree f64_add (sum_tree xs)"
proof -
  have "eval_tree f64_add (pairwise_sum Node (Leaf (Num 0)) (map Leaf xs))
      = pairwise_sum f64_add (eval_tree f64_add (Leaf (Num 0))) (map (eval_tree f64_add) (map Leaf xs))"
    by (rule pairwise_sum_fusion) simp
  moreover have "map (eval_tree f64_add) (map Leaf xs) = xs" by (simp add: comp_def)
  ultimately show ?thesis by (simp add: np_sum_def sum_tree_def)
qed

lemma sum_tree_map:
  assumes "g (Num 0) = Num 0"
  shows "sum_tree (map g xs) = map_sumtree g (sum_tree xs)"
proof -
  have f: "map_sumtree g (pairwise_sum Node (Leaf (Num 0)) (map Leaf xs))
      = pairwise_sum Node (map_sumtree g (Leaf (Num 0))) (map (map_sumtree g) (map Leaf xs))"
    by (rule pairwise_sum_fusion) simp
  have e: "map (map_sumtree g) (map Leaf xs) = map Leaf (map g xs)"
    by (induction xs) simp_all
  show ?thesis unfolding sum_tree_def by (simp only: sumtree.map f e assms)
qed

lemma sum_tree_leaves: "set_sumtree (sum_tree xs) \<subseteq> insert (Num 0) (set xs)"
proof -
  have "set_sumtree (pairwise_sum Node (Leaf (Num 0)) (map Leaf xs)) \<subseteq> insert (Num 0) (set xs)"
    by (rule pairwise_sum_inv) auto
  thus ?thesis by (simp add: sum_tree_def)
qed


subsection \<open>Encircled energy: monotonicity in the radius\<close>

lemma f64_le_trans:
  assumes "f64_le q r1" "f64_le r1 r2"
  shows "f64_le q r2"
  using assms by (cases q; cases r1; cases r2) (simp_all add: f64_le_def)

lemma subseq_filter_mono:
  assumes "\<And>x. P x \<Longrightarrow> Q x"
  shows "subseq (filter P xs) (filter Q xs)"
  by (induction xs) (auto simp: assms)

lemma sum_list_subseq_mono:
  assumes "subseq xs ys" "\<forall>y\<in>set ys. 0 \<le> (f y :: real)"
  shows "sum_list (map f xs) \<le> sum_list (map f ys)"
  using assms
proof (induction rule: list_emb.induct)
  case (list_emb_Nil ys)
  hence "0 \<le> sum_list (map f ys)" by (intro sum_list_nonneg) auto
  thus ?case by simp
next
  case (list_emb_Cons xs ys y)
  thus ?case by simp
next
  case (list_emb_Cons2 x y xs ys)
  thus ?case by simp
qed

lemma np_select_subseq:
  assumes "f64_le r1 r2"
  shows "subseq (np_select radii energy r1) (np_select radii energy r2)"
  unfolding np_select_def
  by (intro subseq_map subseq_filter_mono) (auto intro: f64_le_trans [OF _ assms])

lemma np_select_subset: "set (np_select radii energy r) \<subseteq> set energy"
  by (auto simp: np_select_def dest: set_zip_rightD)

lemma exact_term_nonneg:
  assumes "nonneg_or_nan e"
  shows "0 \<le> f64_real (nan_to_zero e)"
  using assms by (cases e) (simp_all add: nonneg_or_nan_def nan_to_zero_def f64_real_def)

text \<open>
  Claim C7. The claim says that the encircled energy \<^verbatim>\<open>np.nansum(energy[radii <= r])\<close>
  does not decrease when the radius grows, for energies that are not negative or are
  \<^verbatim>\<open>nan\<close>, and that \<^verbatim>\<open>nan\<close> energies contribute zero. What holds of the code is this:
  for \<open>r1 \<le> r2\<close> the energies selected at \<open>r1\<close> are a sub-array of those selected at
  \<open>r2\<close>, their sum in exact arithmetic, \<^verbatim>\<open>nan\<close> counting as zero, does not decrease,
  and the value returned is the float64 sum, in numpy's pairwise order, of the selected
  energies with every \<^verbatim>\<open>nan\<close> replaced by zero. The returned float64 sums themselves
  are not monotone; see below.
\<close>

theorem encircled_energy_exact_monotone:
  assumes "length radii = length energy"
    and "\<forall>e\<in>set energy. nonneg_or_nan e"
    and "f64_le r1 r2"
  shows "subseq (np_select radii energy r1) (np_select radii energy r2)
       \<and> exact_nansum (np_select radii energy r1) \<le> exact_nansum (np_select radii energy r2)
       \<and> encircled_energy radii energy r1
           = Inr (np_sum (map nan_to_zero (np_select radii energy r1)))
       \<and> encircled_energy radii energy r2
           = Inr (np_sum (map nan_to_zero (np_select radii energy r2)))"
proof -
  have sub: "subseq (np_select radii energy r1) (np_select radii energy r2)"
    using assms(3) by (rule np_select_subseq)
  have "\<forall>e\<in>set (np_select radii energy r2). 0 \<le> f64_real (nan_to_zero e)"
    using assms(2) np_select_subset [of radii energy r2] exact_term_nonneg by blast
  with sub have "exact_nansum (np_select radii energy r1) \<le> exact_nansum (np_select radii energy r2)"
    unfolding exact_nansum_def by (rule sum_list_subseq_mono)
  with sub show ?thesis using assms(1) by (simp add: encircled_energy_def np_nansum_def)
qed

theorem encircled_energy_exact_monotone_witness:
  "subseq (np_select [Num 1, Num 1, Num 2] [Num (1 / 2), NaN, Num (1 / 4)] (Num 1))
          (np_select [Num 1, Num 1, Num 2] [Num (1 / 2), NaN, Num (1 / 4)] (Num 2))
   \<and> exact_nansum (np_select [Num 1, Num 1, Num 2] [Num (1 / 2), NaN, Num (1 / 4)] (Num 1))
       \<le> exact_nansum (np_select [Num 1, Num 1, Num 2] [Num (1 / 2), NaN, Num (1 / 4)] (Num 2))
   \<and> encircled_energy [Num 1, Num 1, Num 2] [Num (1 / 2), NaN, Num (1 / 4)] (Num 1)
       = Inr (np_sum (map nan_to_zero
           (np_select [Num 1, Num 1, Num 2] [Num (1 / 2), NaN, Num (1 / 4)] (Num 1))))
   \<and> encircled_energy [Num 1, Num 1, Num 2] [Num (1 / 2), NaN, Num (1 / 4)] (Num 2)
       = Inr (np_sum (map nan_to_zero
           (np_select [Num 1, Num 1, Num 2] [Num (1 / 2), NaN, Num (1 / 4)] (Num 2))))"
  using encircled_energy_exact_monotone
    [of "[Num 1, Num 1, Num 2]" "[Num (1 / 2), NaN, Num (1 / 4)]" "Num 1" "Num 2"]
  by (simp add: nonneg_or_nan_def f64_le_def)

text \<open>
  The returned sums can decrease. With the ten rays of the example all but the third
  lie within radius 1 and all within radius 2. The nine energies within radius 1 are
  summed as eight accumulators and one further term and give 4.550000000000001; with
  the tenth energy, which is 0.0, the accumulators hold other terms, the roundings fall
  otherwise, and the sum within radius 2 is 4.55.
\<close>

theorem encircled_energy_not_monotone:
  "encircled_energy example_radii example_energy (Num 1) = Inr (Num (1280711144033485 / 281474976710656))
   \<and> encircled_energy example_radii example_energy (Num 2) = Inr (Num (5122844576133939 / 1125899906842624))
   \<and> f64_le (Num 1) (Num 2)
   \<and> \<not> f64_le (Num (1280711144033485 / 281474976710656)) (Num (5122844576133939 / 1125899906842624))"
proof -
  have s1: "f64_add (Num (3242591731706757 / 9007199254740992)) (Num (1261007895663739 / 9007199254740992)) = Num (1 / 2)"
    using fl_eval [of "-1" "3242591731706757 / 9007199254740992 + 1261007895663739 / 9007199254740992" 4503599627370496] by (simp add: f64_add_Num rne_def)
  have s2: "f64_add (Num (3602879701896397 / 72057594037927936)) (Num (2206763817411543 / 2251799813685248)) = Num (4638707616191611 / 4503599627370496)"
    using fl_eval [of "0" "3602879701896397 / 72057594037927936 + 2206763817411543 / 2251799813685248" 4638707616191611] by (simp add: f64_add_Num rne_def)
  have s3: "f64_add (Num (1 / 2)) (Num (4638707616191611 / 4503599627370496)) = Num (6890507429876859 / 4503599627370496)"
    using fl_eval [of "0" "1 / 2 + 4638707616191611 / 4503599627370496" 6890507429876859] by (simp add: f64_add_Num rne_def)
  have s4: "f64_add (Num (8376695306909123 / 9007199254740992)) (Num (889460926405673 / 1125899906842624)) = Num (3873095679538627 / 2251799813685248)"
    using fl_eval [of "0" "8376695306909123 / 9007199254740992 + 889460926405673 / 1125899906842624" 7746191359077254] by (simp add: f64_add_Num rne_def)
  have s5: "f64_add (Num (2386907802506363 / 4503599627370496)) (Num (7926335344172073 / 72057594037927936)) = Num (5764607523034235 / 9007199254740992)"
    using fl_eval [of "-1" "2386907802506363 / 4503599627370496 + 7926335344172073 / 72057594037927936" 5764607523034235] by (simp add: f64_add_Num rne_def)
  have s6: "f64_add (Num (3873095679538627 / 2251799813685248)) (Num (5764607523034235 / 9007199254740992)) = Num (2657123780148593 / 1125899906842624)"
    using fl_eval [of "1" "3873095679538627 / 2251799813685248 + 5764607523034235 / 9007199254740992" 5314247560297186] by (simp add: f64_add_Num rne_def)
  have s7: "f64_add (Num (6890507429876859 / 4503599627370496)) (Num (2657123780148593 / 1125899906842624)) = Num (273734414851113 / 70368744177664)"
    using fl_eval [of "1" "6890507429876859 / 4503599627370496 + 2657123780148593 / 1125899906842624" 8759501275235616] by (simp add: f64_add_Num rne_def)
  have s8: "f64_add (Num (273734414851113 / 70368744177664)) (Num (5944751508129055 / 9007199254740992)) = Num (1280711144033485 / 281474976710656)"
    using fl_eval [of "2" "273734414851113 / 70368744177664 + 5944751508129055 / 9007199254740992" 5122844576133940] by (simp add: f64_add_Num rne_def)
  have s9: "f64_add (Num 0) (Num (1280711144033485 / 281474976710656)) = Num (1280711144033485 / 281474976710656)"
    using fl_eval [of "2" "0 + 1280711144033485 / 281474976710656" 5122844576133940] by (simp add: f64_add_Num rne_def)
  have s10: "f64_add (Num 0) (Num (3602879701896397 / 72057594037927936)) = Num (3602879701896397 / 72057594037927936)"
    using fl_eval [of "-5" "0 + 3602879701896397 / 72057594037927936" 7205759403792794] by (simp add: f64_add_Num rne_def)
  have s11: "f64_add (Num (1 / 2)) (Num (3602879701896397 / 72057594037927936)) = Num (2476979795053773 / 4503599627370496)"
    using fl_eval [of "-1" "1 / 2 + 3602879701896397 / 72057594037927936" 4953959590107546] by (simp add: f64_add_Num rne_def)
  have s12: "f64_add (Num (2206763817411543 / 2251799813685248)) (Num (8376695306909123 / 9007199254740992)) = Num (537617205517353 / 281474976710656)"
    using fl_eval [of "0" "2206763817411543 / 2251799813685248 + 8376695306909123 / 9007199254740992" 8601875288277648] by (simp add: f64_add_Num rne_def)
  have s13: "f64_add (Num (889460926405673 / 1125899906842624)) (Num (2386907802506363 / 4503599627370496)) = Num (5944751508129055 / 4503599627370496)"
    using fl_eval [of "0" "889460926405673 / 1125899906842624 + 2386907802506363 / 4503599627370496" 5944751508129055] by (simp add: f64_add_Num rne_def)
  have s14: "f64_add (Num (537617205517353 / 281474976710656)) (Num (5944751508129055 / 4503599627370496)) = Num (909164174775419 / 281474976710656)"
    using fl_eval [of "1" "537617205517353 / 281474976710656 + 5944751508129055 / 4503599627370496" 7273313398203352] by (simp add: f64_add_Num rne_def)
  have s15: "f64_add (Num (2476979795053773 / 4503599627370496)) (Num (909164174775419 / 281474976710656)) = Num (4255901647865119 / 1125899906842624)"
    using fl_eval [of "1" "2476979795053773 / 4503599627370496 + 909164174775419 / 281474976710656" 8511803295730238] by (simp add: f64_add_Num rne_def)
  have s16: "f64_add (Num (4255901647865119 / 1125899906842624)) (Num (7926335344172073 / 72057594037927936)) = Num (8759501275235615 / 2251799813685248)"
    using fl_eval [of "1" "4255901647865119 / 1125899906842624 + 7926335344172073 / 72057594037927936" 8759501275235615] by (simp add: f64_add_Num rne_def)
  have s17: "f64_add (Num (8759501275235615 / 2251799813685248)) (Num (5944751508129055 / 9007199254740992)) = Num (5122844576133939 / 1125899906842624)"
    using fl_eval [of "2" "8759501275235615 / 2251799813685248 + 5944751508129055 / 9007199254740992" 5122844576133939] by (simp add: f64_add_Num rne_def)
  have s18: "f64_add (Num 0) (Num (5122844576133939 / 1125899906842624)) = Num (5122844576133939 / 1125899906842624)"
    using fl_eval [of "2" "0 + 5122844576133939 / 1125899906842624" 5122844576133939] by (simp add: f64_add_Num rne_def)
  show ?thesis
    by (simp add: encircled_energy_def np_nansum_def np_select_def nan_to_zero_def
        example_radii_def example_energy_def f64_le_def np_sum_def pairwise_sum.simps
        pairwise_block_def combine8_def
        s1 s2 s3 s4 s5 s6 s7 s8 s9 s10 s11 s12 s13 s14 s15 s16 s17 s18)
qed


subsection \<open>Pupil function: rescaling of the amplitudes\<close>

text \<open>Sums of numbers that are not negative, and sums of terms that are scaled by a
  power of two: as long as no sum overflows and every term is zero or a normal number,
  before and after the scaling, every rounding commutes with the scaling.\<close>

lemma nonneg_or_inf_add:
  assumes "nonneg_or_inf u" "nonneg_or_inf v"
  shows "nonneg_or_inf (f64_add u v)"
proof (cases "u = PInf \<or> v = PInf")
  case True
  thus ?thesis using assms by (auto simp: nonneg_or_inf_def f64_add_def)
next
  case False
  with assms obtain a b where ab: "u = Num a" "0 \<le> a" "v = Num b" "0 \<le> b"
    unfolding nonneg_or_inf_def by blast
  hence "0 \<le> a + b" by simp
  from fl_nonneg [OF this] show ?thesis
    unfolding nonneg_or_inf_def ab f64_add_Num .
qed

lemma add_inf_left:
  assumes "nonneg_or_inf v"
  shows "f64_add PInf v = PInf" "f64_add v PInf = PInf"
  using assms by (auto simp: nonneg_or_inf_def f64_add_def)

lemma scaled_pair_add:
  assumes j: "- 1022 \<le> j"
    and l: "scaled_pair k j ul ul'" and r: "scaled_pair k j ur ur'"
    and fin: "f64_add ul ur \<noteq> PInf" "f64_add ul' ur' \<noteq> PInf"
  shows "scaled_pair k j (f64_add ul ur) (f64_add ul' ur')"
proof -
  from l obtain s1 where s1: "ul = Num s1" "ul' = Num (s1 * 2 powi k)"
    "s1 = 0 \<or> (2 powi j \<le> s1 \<and> 2 powi j \<le> s1 * 2 powi k)"
    unfolding scaled_pair_def by blast
  from r obtain s2 where s2: "ur = Num s2" "ur' = Num (s2 * 2 powi k)"
    "s2 = 0 \<or> (2 powi j \<le> s2 \<and> 2 powi j \<le> s2 * 2 powi k)"
    unfolding scaled_pair_def by blast
  define z where "z = s1 + s2"
  have pj: "0 < (2::real) powi j" and pk: "0 < (2::real) powi k" by simp_all
  have n1: "0 \<le> s1" using s1(3) pj by linarith
  have n2: "0 \<le> s2" using s2(3) pj by linarith
  have u: "f64_add ul ur = fl z" by (simp add: s1 s2 f64_add_Num z_def)
  have u': "f64_add ul' ur' = fl (z * 2 powi k)"
    by (simp add: s1 s2 f64_add_Num z_def algebra_simps)
  show ?thesis
  proof (cases "z = 0")
    case True
    thus ?thesis by (simp add: scaled_pair_def u u' fl_zero)
  next
    case False
    have low: "(2::real) powi (- 1022) \<le> 2 powi j"
      using j by (intro power_int_increasing) simp_all
    have zj: "2 powi j \<le> z"
    proof (cases "s1 = 0")
      case True
      with False have "s2 \<noteq> 0" by (simp add: z_def)
      with s2(3) True show ?thesis by (simp add: z_def)
    next
      case False
      with s1(3) n2 show ?thesis by (simp add: z_def)
    qed
    have zk: "2 powi j \<le> z * 2 powi k"
    proof (cases "s1 = 0")
      case True
      with False have "s2 \<noteq> 0" by (simp add: z_def)
      with s2(3) True show ?thesis by (simp add: z_def)
    next
      case False
      have "0 \<le> s2 * 2 powi k" using n2 by simp
      with False s1(3) show ?thesis by (simp add: z_def algebra_simps)
    qed
    have a: "2 powi (- 1022) \<le> z" using zj low by linarith
    have b: "2 powi (- 1022) \<le> z * 2 powi k" using zk low by linarith
    from fl_pos [OF a] fin(1) u
    have f1: "fl z = Num (rnd z)" "z < 2 powi 1024" by simp_all
    from fl_pos [OF b] fin(2) u'
    have f2: "fl (z * 2 powi k) = Num (rnd (z * 2 powi k))" "z * 2 powi k < 2 powi 1024"
      by simp_all
    have sc: "rnd (z * 2 powi k) = rnd z * 2 powi k" using a f1(2) b f2(2) by (rule rnd_scale)
    have "2 powi j \<le> rnd z" using j zj f1(2) by (rule rnd_lower)
    moreover have "2 powi j \<le> rnd (z * 2 powi k)" using j zk f2(2) by (rule rnd_lower)
    ultimately show ?thesis by (simp add: scaled_pair_def u u' f1(1) f2(1) sc)
  qed
qed

lemma scaled_pair_nonneg:
  assumes "scaled_pair k j u u'"
  shows "nonneg_or_inf u" "nonneg_or_inf u'"
proof -
  from assms obtain s where s: "u = Num s" "u' = Num (s * 2 powi k)"
    "s = 0 \<or> (2 powi j \<le> s \<and> 2 powi j \<le> s * 2 powi k)"
    unfolding scaled_pair_def by blast
  have "0 < (2::real) powi j" by simp
  with s(3) have "0 \<le> s" by linarith
  thus "nonneg_or_inf u" "nonneg_or_inf u'" by (simp_all add: nonneg_or_inf_def s)
qed

lemma scaled_tree:
  assumes j: "- 1022 \<le> j"
    and leaves: "\<forall>v\<in>set_sumtree t. scaled_pair k j v (g v)"
  shows "nonneg_or_inf (eval_tree f64_add t) \<and>
         nonneg_or_inf (eval_tree f64_add (map_sumtree g t)) \<and>
         (eval_tree f64_add t = PInf \<or> eval_tree f64_add (map_sumtree g t) = PInf \<or>
          scaled_pair k j (eval_tree f64_add t) (eval_tree f64_add (map_sumtree g t)))"
  using leaves
proof (induction t)
  case (Leaf v)
  thus ?case using scaled_pair_nonneg [of k j v "g v"] by simp
next
  case (Node l r)
  define ul where "ul = eval_tree f64_add l"
  define ur where "ur = eval_tree f64_add r"
  define ul' where "ul' = eval_tree f64_add (map_sumtree g l)"
  define ur' where "ur' = eval_tree f64_add (map_sumtree g r)"
  from Node have L: "nonneg_or_inf ul" "nonneg_or_inf ul'"
    "ul = PInf \<or> ul' = PInf \<or> scaled_pair k j ul ul'"
    and R: "nonneg_or_inf ur" "nonneg_or_inf ur'"
    "ur = PInf \<or> ur' = PInf \<or> scaled_pair k j ur ur'"
    by (simp_all add: ul_def ur_def ul'_def ur'_def)
  have q: "nonneg_or_inf (f64_add ul ur)" "nonneg_or_inf (f64_add ul' ur')"
    using L R by (simp_all add: nonneg_or_inf_add)
  have "f64_add ul ur = PInf \<or> f64_add ul' ur' = PInf \<or>
      scaled_pair k j (f64_add ul ur) (f64_add ul' ur')"
  proof (cases "f64_add ul ur = PInf \<or> f64_add ul' ur' = PInf")
    case True
    thus ?thesis by blast
  next
    case False
    hence fin: "f64_add ul ur \<noteq> PInf" "f64_add ul' ur' \<noteq> PInf" by simp_all
    have "ul \<noteq> PInf" "ur \<noteq> PInf" using fin(1) add_inf_left L(1) R(1) by metis+
    moreover have "ul' \<noteq> PInf" "ur' \<noteq> PInf" using fin(2) add_inf_left L(2) R(2) by metis+
    ultimately have "scaled_pair k j ul ul'" "scaled_pair k j ur ur'" using L(3) R(3) by simp_all
    from scaled_pair_add [OF j this fin] show ?thesis by simp
  qed
  thus ?case using q by (simp add: ul_def ur_def ul'_def ur'_def)
qed

lemma mul_pow2_zero: "f64_mul (Num (2 powi k)) (Num 0) = Num 0"
  by (simp add: f64_mul_def neg_sign_def signed_zero_def Let_def not_less)

lemma in_range_scaled:
  assumes "amplitude_in_range k v"
  shows "scaled_pair k (- 900) v (f64_mul (Num (2 powi k)) v)"
proof -
  from assms obtain a where v: "v = Num a" and rep: "fl a = Num a"
    and rng: "a = 0 \<or> (2 powi (- 900) \<le> a \<and> a \<le> 2 powi 900 \<and>
                    2 powi (- 900) \<le> a * 2 powi k \<and> a * 2 powi k \<le> 2 powi 900)"
    by (auto simp: amplitude_in_range_def split: f64.splits)
  show ?thesis
  proof (cases "a = 0")
    case True
    thus ?thesis by (simp add: v mul_pow2_zero scaled_pair_def)
  next
    case False
    with rng have r: "2 powi (- 900) \<le> a" "a \<le> 2 powi 900"
      "2 powi (- 900) \<le> a * 2 powi k" "a * 2 powi k \<le> 2 powi 900" by simp_all
    have low: "(2::real) powi (- 1022) \<le> 2 powi (- 900)"
      by (intro power_int_increasing) simp_all
    have top: "(2::real) powi 900 < 2 powi 1024"
      by (intro power_int_strict_increasing) simp_all
    have a1: "2 powi (- 1022) \<le> a" using r(1) low by linarith
    have a2: "2 powi (- 1022) \<le> a * 2 powi k" using r(3) low by linarith
    have "fl a = Num (rnd a)" using a1 r(2) by (rule fl_pos_finite) simp
    with rep have ra: "rnd a = a" by simp
    have "fl (a * 2 powi k) = Num (rnd (a * 2 powi k))" using a2 r(4) by (rule fl_pos_finite) simp
    moreover have "rnd (a * 2 powi k) = rnd a * 2 powi k"
      using a1 _ a2 _ by (rule rnd_scale) (use r top in linarith)+
    ultimately have "fl (a * 2 powi k) = Num (a * 2 powi k)" by (simp add: ra)
    hence "f64_mul (Num (2 powi k)) v = Num (a * 2 powi k)"
      using False by (simp add: v f64_mul_def Let_def mult.commute)
    thus ?thesis using r by (simp add: scaled_pair_def v)
  qed
qed

lemma fl_count:
  assumes "0 < n" "n \<le> 2 ^ 100"
  obtains c where "fl (real n) = Num c" "1 \<le> c" "c \<le> 2 powi 100"
proof -
  have lo: "2 powi 0 \<le> real n" using assms(1) by simp
  have "real n \<le> real (2 ^ 100)" using assms(2) by (simp only: of_nat_le_iff)
  hence hi: "real n \<le> 2 powi 100" by simp
  have "(2::real) powi (- 1022) \<le> 2 powi 0" by (intro power_int_increasing) simp_all
  with lo have l: "2 powi (- 1022) \<le> real n" by linarith
  have "fl (real n) = Num (rnd (real n))" using l hi by (rule fl_pos_finite) simp
  moreover have "(2::real) powi 100 < 2 powi 1024" by (intro power_int_strict_increasing) simp_all
  hence "2 powi 0 \<le> rnd (real n)" using lo hi by (intro rnd_lower) simp_all
  moreover have "rnd (real n) \<le> 2 powi 100" using l hi by (rule rnd_upper) simp
  ultimately show ?thesis using that by simp
qed

lemma div_inf: "0 < c \<Longrightarrow> f64_div PInf (Num c) = PInf"
  by (simp add: f64_div_def neg_sign_def signed_inf_def Let_def)

lemma div_zero_divisor:
  assumes "0 \<le> a"
  shows "f64_div (Num (a * 2 powi k)) (Num 0) = f64_div (Num a) (Num 0)"
proof -
  have "0 \<le> a * 2 powi k" using assms by simp
  hence "\<not> a * 2 powi k < 0" by simp
  thus ?thesis using assms by (simp add: f64_div_def neg_sign_def Let_def not_less)
qed

lemma div_scaled:
  assumes "0 \<le> a" "0 < m"
  shows "f64_div (Num (a * 2 powi k)) (Num (m * 2 powi k)) = f64_div (Num a) (Num m)"
proof -
  have "0 \<le> a * 2 powi k" "0 < m * 2 powi k" using assms by simp_all
  hence "\<not> a * 2 powi k < 0" "\<not> m * 2 powi k < 0" by simp_all
  thus ?thesis using assms by (simp add: f64_div_def neg_sign_def Let_def not_less)
qed

lemma normalized_amplitude_pow2:
  assumes rng: "\<forall>v\<in>set A. amplitude_in_range k v"
    and len: "length A \<le> 2 ^ 100"
    and fin: "np_mean A \<noteq> PInf" "np_mean (np_scale (Num (2 powi k)) A) \<noteq> PInf"
  shows "normalized_amplitude (np_scale (Num (2 powi k)) A) = normalized_amplitude A"
proof (cases "A = []")
  case True
  thus ?thesis by (simp add: normalized_amplitude_def np_scale_def)
next
  case False
  define g where "g = f64_mul (Num (2 powi k))"
  define S where "S = np_sum A"
  define S' where "S' = np_sum (map g A)"
  have g0: "g (Num 0) = Num 0" by (simp add: g_def mul_pow2_zero)
  have pair: "scaled_pair k (- 900) v (g v)" if "v \<in> set A" for v
    using that rng in_range_scaled by (simp add: g_def)
  have "scaled_pair k (- 900) (Num 0) (g (Num 0))" by (simp add: g0 scaled_pair_def)
  with pair have "\<forall>v\<in>set_sumtree (sum_tree A). scaled_pair k (- 900) v (g v)"
    using sum_tree_leaves [of A] by blast
  from scaled_tree [OF _ this]
  have tr: "nonneg_or_inf S" "nonneg_or_inf S'" "S = PInf \<or> S' = PInf \<or> scaled_pair k (- 900) S S'"
    by (simp_all add: S_def S'_def np_sum_tree sum_tree_map [of g, OF g0])
  from False have "0 < length A" by simp
  from fl_count [OF this len] obtain c where
    c: "fl (real (length A)) = Num c" "1 \<le> c" "c \<le> 2 powi 100" by blast
  have c0: "0 < c" using c(2) by simp
  have m: "np_mean A = f64_div S (Num c)" by (simp add: np_mean_def S_def c)
  have m': "np_mean (np_scale (Num (2 powi k)) A) = f64_div S' (Num c)"
    by (simp add: np_mean_def S'_def c np_scale_def g_def)
  have "S \<noteq> PInf" using fin(1) div_inf [OF c0] by (auto simp: m)
  moreover have "S' \<noteq> PInf" using fin(2) div_inf [OF c0] by (auto simp: m')
  ultimately have "scaled_pair k (- 900) S S'" using tr(3) by simp
  then obtain s where s: "S = Num s" "S' = Num (s * 2 powi k)"
    "s = 0 \<or> (2 powi (- 900) \<le> s \<and> 2 powi (- 900) \<le> s * 2 powi k)"
    unfolding scaled_pair_def by blast
  have entry: "\<exists>a\<ge>0. v = Num a \<and> g v = Num (a * 2 powi k)" if "v \<in> set A" for v
  proof -
    from pair [OF that] obtain a where a: "v = Num a" "g v = Num (a * 2 powi k)"
      "a = 0 \<or> (2 powi (- 900) \<le> a \<and> 2 powi (- 900) \<le> a * 2 powi k)"
      unfolding scaled_pair_def by blast
    have "0 < (2::real) powi (- 900)" by simp
    with a(3) have "0 \<le> a" by linarith
    with a show ?thesis by blast
  qed
  have "f64_div (g v) (f64_div S' (Num c)) = f64_div v (f64_div S (Num c))" if "v \<in> set A" for v
  proof -
    from entry [OF that] obtain a where a: "0 \<le> a" "v = Num a" "g (Num a) = Num (a * 2 powi k)"
      by auto
    show ?thesis
    proof (cases "s = 0")
      case True
      have "f64_div (Num 0) (Num c) = Num 0"
        using c0 by (simp add: f64_div_def neg_sign_def signed_zero_def Let_def not_less)
      thus ?thesis using div_zero_divisor [OF a(1), of k] by (simp add: s True a)
    next
      case False
      with s(3) have b: "2 powi (- 900) \<le> s" "2 powi (- 900) \<le> s * 2 powi k" by simp_all
      define x where "x = s / c"
      have p: "(2::real) powi (- 1000) * 2 powi 100 = 2 powi (- 900)"
        using pow2_add [of "- 1000" 100] by simp
      have low: "(2::real) powi (- 1022) \<le> 2 powi (- 1000)"
        by (intro power_int_increasing) simp_all
      have "2 powi (- 1000) * c \<le> 2 powi (- 1000) * 2 powi 100"
        using c(3) by (intro mult_left_mono) simp_all
      hence cb: "2 powi (- 1000) * c \<le> 2 powi (- 900)" by (simp only: p)
      hence "2 powi (- 1000) * c \<le> s" using b(1) by linarith
      hence "2 powi (- 1000) \<le> x" using c0 by (simp add: x_def field_simps)
      hence x1: "2 powi (- 1022) \<le> x" using low by linarith
      have "2 powi (- 1000) * c \<le> s * 2 powi k" using cb b(2) by linarith
      hence "2 powi (- 1000) \<le> x * 2 powi k" using c0 by (simp add: x_def field_simps)
      hence x2: "2 powi (- 1022) \<le> x * 2 powi k" using low by linarith
      have s0: "s \<noteq> 0" "s * 2 powi k \<noteq> 0" using False by simp_all
      have d: "f64_div S (Num c) = fl x"
        using c0 s0 by (simp add: s f64_div_def Let_def x_def)
      have d': "f64_div S' (Num c) = fl (x * 2 powi k)"
        using c0 s0 by (simp add: s f64_div_def Let_def x_def)
      from fl_pos [OF x1] fin(1) have f1: "fl x = Num (rnd x)" "x < 2 powi 1024"
        by (simp_all add: m d)
      from fl_pos [OF x2] fin(2) have f2: "fl (x * 2 powi k) = Num (rnd (x * 2 powi k))"
        "x * 2 powi k < 2 powi 1024"
        by (simp_all add: m' d')
      have sc: "rnd (x * 2 powi k) = rnd x * 2 powi k" using x1 f1(2) x2 f2(2) by (rule rnd_scale)
      have "2 powi (- 1022) \<le> rnd x" using x1 f1(2) by (intro rnd_lower) simp_all
      moreover have "0 < (2::real) powi (- 1022)" by simp
      ultimately have "0 < rnd x" by linarith
      from div_scaled [OF a(1) this, of k] show ?thesis by (simp add: d d' f1(1) f2(1) sc a)
    qed
  qed
  hence "\<forall>v\<in>set A. f64_div (g v) (np_mean (np_scale (Num (2 powi k)) A)) = f64_div v (np_mean A)"
    by (simp add: m m')
  thus ?thesis by (simp add: normalized_amplitude_def np_scale_def g_def)
qed

lemma map_err_update:
  assumes "f v = f (vs ! k)"
  shows "map_err f (vs[k := v]) = map_err f vs"
  using assms
proof (induction vs arbitrary: k)
  case Nil
  then show ?case by simp
next
  case (Cons w vs)
  then show ?case by (cases k) simp_all
qed

lemma generate_pupil_pow2:
  assumes "\<forall>v\<in>set A. amplitude_in_range k v"
    and "length A \<le> 2 ^ 100"
    and "np_mean A \<noteq> PInf" "np_mean (np_scale (Num (2 powi k)) A) \<noteq> PInf"
  shows "generate_pupil ext msk n (opd, np_scale (Num (2 powi k)) A) = generate_pupil ext msk n (opd, A)"
  by (simp add: generate_pupil_def normalized_amplitude_pow2 [OF assms])

text \<open>The example: the amplitudes 1 to 5 on the five samples of the pupil of three by
  three points, their multiples by 2 and by the float64 number written \<^verbatim>\<open>0.1\<close>, the
  means, the normalized amplitudes and the pupils, each rounding evaluated from the
  exponent of the exact result.\<close>

lemma c64_mul_one:
  assumes "fl a = Num a"
  shows "c64_mul (Num a, Num 0) (Num 1, Num 0) = (Num a, Num 0)"
  using assms
  by (simp add: c64_mul_def f64_mul_def f64_sub_def f64_neg_def f64_add_def neg_sign_def
      signed_zero_def Let_def fl_zero)

lemma example_mean:
  "np_mean [Num 1, Num 2, Num 3, Num 4, Num 5] = Num 3"
proof -
  have s1: "f64_add (Num 0) (Num 1) = Num 1"
    using fl_eval [of "0" "0 + 1" 4503599627370496] by (simp add: f64_add_Num rne_def)
  have s2: "f64_add (Num 1) (Num 2) = Num 3"
    using fl_eval [of "1" "1 + 2" 6755399441055744] by (simp add: f64_add_Num rne_def)
  have s3: "f64_add (Num 3) (Num 3) = Num 6"
    using fl_eval [of "2" "3 + 3" 6755399441055744] by (simp add: f64_add_Num rne_def)
  have s4: "f64_add (Num 6) (Num 4) = Num 10"
    using fl_eval [of "3" "6 + 4" 5629499534213120] by (simp add: f64_add_Num rne_def)
  have s5: "f64_add (Num 10) (Num 5) = Num 15"
    using fl_eval [of "3" "10 + 5" 8444249301319680] by (simp add: f64_add_Num rne_def)
  have s6: "f64_add (Num 0) (Num 15) = Num 15"
    using fl_eval [of "3" "0 + 15" 8444249301319680] by (simp add: f64_add_Num rne_def)
  have s7: "fl (5) = Num 5"
    using fl_eval [of "2" "5" 5629499534213120] by (simp add: rne_def)
  have s8: "f64_div (Num 15) (Num 5) = Num 3"
    using fl_eval [of "1" "15 / (5)" 6755399441055744] by (simp add: f64_div_def neg_sign_def Let_def rne_def)
  show ?thesis
    by (simp add: np_mean_def np_sum_def pairwise_sum.simps s1 s2 s3 s4 s5 s6 s7 s8)
qed

lemma example_scaled_two:
  "np_scale (Num 2) [Num 1, Num 2, Num 3, Num 4, Num 5] = [Num 2, Num 4, Num 6, Num 8, Num 10]"
proof -
  have s1: "f64_mul (Num 2) (Num 1) = Num 2"
    using fl_eval [of "1" "2 * (1)" 4503599627370496] by (simp add: f64_mul_def neg_sign_def Let_def rne_def)
  have s2: "f64_mul (Num 2) (Num 2) = Num 4"
    using fl_eval [of "2" "2 * (2)" 4503599627370496] by (simp add: f64_mul_def neg_sign_def Let_def rne_def)
  have s3: "f64_mul (Num 2) (Num 3) = Num 6"
    using fl_eval [of "2" "2 * (3)" 6755399441055744] by (simp add: f64_mul_def neg_sign_def Let_def rne_def)
  have s4: "f64_mul (Num 2) (Num 4) = Num 8"
    using fl_eval [of "3" "2 * (4)" 4503599627370496] by (simp add: f64_mul_def neg_sign_def Let_def rne_def)
  have s5: "f64_mul (Num 2) (Num 5) = Num 10"
    using fl_eval [of "3" "2 * (5)" 5629499534213120] by (simp add: f64_mul_def neg_sign_def Let_def rne_def)
  show ?thesis
    by (simp add: np_scale_def s1 s2 s3 s4 s5)
qed

lemma example_mean_two:
  "np_mean [Num 2, Num 4, Num 6, Num 8, Num 10] = Num 6"
proof -
  have s1: "f64_add (Num 0) (Num 2) = Num 2"
    using fl_eval [of "1" "0 + 2" 4503599627370496] by (simp add: f64_add_Num rne_def)
  have s2: "f64_add (Num 2) (Num 4) = Num 6"
    using fl_eval [of "2" "2 + 4" 6755399441055744] by (simp add: f64_add_Num rne_def)
  have s3: "f64_add (Num 6) (Num 6) = Num 12"
    using fl_eval [of "3" "6 + 6" 6755399441055744] by (simp add: f64_add_Num rne_def)
  have s4: "f64_add (Num 12) (Num 8) = Num 20"
    using fl_eval [of "4" "12 + 8" 5629499534213120] by (simp add: f64_add_Num rne_def)
  have s5: "f64_add (Num 20) (Num 10) = Num 30"
    using fl_eval [of "4" "20 + 10" 8444249301319680] by (simp add: f64_add_Num rne_def)
  have s6: "f64_add (Num 0) (Num 30) = Num 30"
    using fl_eval [of "4" "0 + 30" 8444249301319680] by (simp add: f64_add_Num rne_def)
  have s7: "fl (5) = Num 5"
    using fl_eval [of "2" "5" 5629499534213120] by (simp add: rne_def)
  have s8: "f64_div (Num 30) (Num 5) = Num 6"
    using fl_eval [of "2" "30 / (5)" 6755399441055744] by (simp add: f64_div_def neg_sign_def Let_def rne_def)
  show ?thesis
    by (simp add: np_mean_def np_sum_def pairwise_sum.simps s1 s2 s3 s4 s5 s6 s7 s8)
qed

lemma example_in_range:
  "\<forall>v\<in>set [Num 1, Num 2, Num 3, Num 4, Num 5]. amplitude_in_range 1 v"
proof -
  have s1: "fl (1) = Num 1"
    using fl_eval [of "0" "1" 4503599627370496] by (simp add: rne_def)
  have s2: "fl (2) = Num 2"
    using fl_eval [of "1" "2" 4503599627370496] by (simp add: rne_def)
  have s3: "fl (3) = Num 3"
    using fl_eval [of "1" "3" 6755399441055744] by (simp add: rne_def)
  have s4: "fl (4) = Num 4"
    using fl_eval [of "2" "4" 4503599627370496] by (simp add: rne_def)
  have s5: "fl (5) = Num 5"
    using fl_eval [of "2" "5" 5629499534213120] by (simp add: rne_def)
  show ?thesis
    by (simp add: amplitude_in_range_def s1 s2 s3 s4 s5)
qed

lemma example_scaled_tenth:
  "np_scale (Num (3602879701896397 / 36028797018963968)) [Num 1, Num 2, Num 3, Num 4, Num 5] = [Num (3602879701896397 / 36028797018963968), Num (3602879701896397 / 18014398509481984), Num (1351079888211149 / 4503599627370496), Num (3602879701896397 / 9007199254740992), Num (1 / 2)]"
proof -
  have s1: "f64_mul (Num (3602879701896397 / 36028797018963968)) (Num 1) = Num (3602879701896397 / 36028797018963968)"
    using fl_eval [of "-4" "3602879701896397 / 36028797018963968 * (1)" 7205759403792794] by (simp add: f64_mul_def neg_sign_def Let_def rne_def)
  have s2: "f64_mul (Num (3602879701896397 / 36028797018963968)) (Num 2) = Num (3602879701896397 / 18014398509481984)"
    using fl_eval [of "-3" "3602879701896397 / 36028797018963968 * (2)" 7205759403792794] by (simp add: f64_mul_def neg_sign_def Let_def rne_def)
  have s3: "f64_mul (Num (3602879701896397 / 36028797018963968)) (Num 3) = Num (1351079888211149 / 4503599627370496)"
    using fl_eval [of "-2" "3602879701896397 / 36028797018963968 * (3)" 5404319552844596] by (simp add: f64_mul_def neg_sign_def Let_def rne_def)
  have s4: "f64_mul (Num (3602879701896397 / 36028797018963968)) (Num 4) = Num (3602879701896397 / 9007199254740992)"
    using fl_eval [of "-2" "3602879701896397 / 36028797018963968 * (4)" 7205759403792794] by (simp add: f64_mul_def neg_sign_def Let_def rne_def)
  have s5: "f64_mul (Num (3602879701896397 / 36028797018963968)) (Num 5) = Num (1 / 2)"
    using fl_eval [of "-1" "3602879701896397 / 36028797018963968 * (5)" 4503599627370496] by (simp add: f64_mul_def neg_sign_def Let_def rne_def)
  show ?thesis
    by (simp add: np_scale_def s1 s2 s3 s4 s5)
qed

lemma example_mean_tenth:
  "np_mean [Num (3602879701896397 / 36028797018963968), Num (3602879701896397 / 18014398509481984), Num (1351079888211149 / 4503599627370496), Num (3602879701896397 / 9007199254740992), Num (1 / 2)] = Num (5404319552844595 / 18014398509481984)"
proof -
  have s1: "f64_add (Num 0) (Num (3602879701896397 / 36028797018963968)) = Num (3602879701896397 / 36028797018963968)"
    using fl_eval [of "-4" "0 + 3602879701896397 / 36028797018963968" 7205759403792794] by (simp add: f64_add_Num rne_def)
  have s2: "f64_add (Num (3602879701896397 / 36028797018963968)) (Num (3602879701896397 / 18014398509481984)) = Num (1351079888211149 / 4503599627370496)"
    using fl_eval [of "-2" "3602879701896397 / 36028797018963968 + 3602879701896397 / 18014398509481984" 5404319552844596] by (simp add: f64_add_Num rne_def)
  have s3: "f64_add (Num (1351079888211149 / 4503599627370496)) (Num (1351079888211149 / 4503599627370496)) = Num (1351079888211149 / 2251799813685248)"
    using fl_eval [of "-1" "1351079888211149 / 4503599627370496 + 1351079888211149 / 4503599627370496" 5404319552844596] by (simp add: f64_add_Num rne_def)
  have s4: "f64_add (Num (1351079888211149 / 2251799813685248)) (Num (3602879701896397 / 9007199254740992)) = Num 1"
    using fl_eval [of "0" "1351079888211149 / 2251799813685248 + 3602879701896397 / 9007199254740992" 4503599627370496] by (simp add: f64_add_Num rne_def)
  have s5: "f64_add (Num 1) (Num (1 / 2)) = Num (3 / 2)"
    using fl_eval [of "0" "1 + 1 / 2" 6755399441055744] by (simp add: f64_add_Num rne_def)
  have s6: "f64_add (Num 0) (Num (3 / 2)) = Num (3 / 2)"
    using fl_eval [of "0" "0 + 3 / 2" 6755399441055744] by (simp add: f64_add_Num rne_def)
  have s7: "fl (5) = Num 5"
    using fl_eval [of "2" "5" 5629499534213120] by (simp add: rne_def)
  have s8: "f64_div (Num (3 / 2)) (Num 5) = Num (5404319552844595 / 18014398509481984)"
    using fl_eval [of "-2" "3 / 2 / (5)" 5404319552844595] by (simp add: f64_div_def neg_sign_def Let_def rne_def)
  show ?thesis
    by (simp add: np_mean_def np_sum_def pairwise_sum.simps s1 s2 s3 s4 s5 s6 s7 s8)
qed

lemma example_normalized:
  "normalized_amplitude [Num 1, Num 2, Num 3, Num 4, Num 5] = [Num (6004799503160661 / 18014398509481984), Num (6004799503160661 / 9007199254740992), Num 1, Num (6004799503160661 / 4503599627370496), Num (7505999378950827 / 4503599627370496)]"
proof -
  have s1: "f64_div (Num 1) (Num 3) = Num (6004799503160661 / 18014398509481984)"
    using fl_eval [of "-2" "1 / (3)" 6004799503160661] by (simp add: f64_div_def neg_sign_def Let_def rne_def)
  have s2: "f64_div (Num 2) (Num 3) = Num (6004799503160661 / 9007199254740992)"
    using fl_eval [of "-1" "2 / (3)" 6004799503160661] by (simp add: f64_div_def neg_sign_def Let_def rne_def)
  have s3: "f64_div (Num 3) (Num 3) = Num 1"
    using fl_eval [of "0" "3 / (3)" 4503599627370496] by (simp add: f64_div_def neg_sign_def Let_def rne_def)
  have s4: "f64_div (Num 4) (Num 3) = Num (6004799503160661 / 4503599627370496)"
    using fl_eval [of "0" "4 / (3)" 6004799503160661] by (simp add: f64_div_def neg_sign_def Let_def rne_def)
  have s5: "f64_div (Num 5) (Num 3) = Num (7505999378950827 / 4503599627370496)"
    using fl_eval [of "0" "5 / (3)" 7505999378950827] by (simp add: f64_div_def neg_sign_def Let_def rne_def)
  show ?thesis
    by (simp add: normalized_amplitude_def example_mean s1 s2 s3 s4 s5)
qed

lemma example_normalized_tenth:
  "normalized_amplitude [Num (3602879701896397 / 36028797018963968), Num (3602879701896397 / 18014398509481984), Num (1351079888211149 / 4503599627370496), Num (3602879701896397 / 9007199254740992), Num (1 / 2)] = [Num (3002399751580331 / 9007199254740992), Num (3002399751580331 / 4503599627370496), Num (4503599627370497 / 4503599627370496), Num (3002399751580331 / 2251799813685248), Num (7505999378950827 / 4503599627370496)]"
proof -
  have s1: "f64_div (Num (3602879701896397 / 36028797018963968)) (Num (5404319552844595 / 18014398509481984)) = Num (3002399751580331 / 9007199254740992)"
    using fl_eval [of "-2" "3602879701896397 / 36028797018963968 / (5404319552844595 / 18014398509481984)" 6004799503160662] by (simp add: f64_div_def neg_sign_def Let_def rne_def)
  have s2: "f64_div (Num (3602879701896397 / 18014398509481984)) (Num (5404319552844595 / 18014398509481984)) = Num (3002399751580331 / 4503599627370496)"
    using fl_eval [of "-1" "3602879701896397 / 18014398509481984 / (5404319552844595 / 18014398509481984)" 6004799503160662] by (simp add: f64_div_def neg_sign_def Let_def rne_def)
  have s3: "f64_div (Num (1351079888211149 / 4503599627370496)) (Num (5404319552844595 / 18014398509481984)) = Num (4503599627370497 / 4503599627370496)"
    using fl_eval [of "0" "1351079888211149 / 4503599627370496 / (5404319552844595 / 18014398509481984)" 4503599627370497] by (simp add: f64_div_def neg_sign_def Let_def rne_def)
  have s4: "f64_div (Num (3602879701896397 / 9007199254740992)) (Num (5404319552844595 / 18014398509481984)) = Num (3002399751580331 / 2251799813685248)"
    using fl_eval [of "0" "3602879701896397 / 9007199254740992 / (5404319552844595 / 18014398509481984)" 6004799503160662] by (simp add: f64_div_def neg_sign_def Let_def rne_def)
  have s5: "f64_div (Num (1 / 2)) (Num (5404319552844595 / 18014398509481984)) = Num (7505999378950827 / 4503599627370496)"
    using fl_eval [of "0" "1 / 2 / (5404319552844595 / 18014398509481984)" 7505999378950827] by (simp add: f64_div_def neg_sign_def Let_def rne_def)
  show ?thesis
    by (simp add: normalized_amplitude_def example_mean_tenth s1 s2 s3 s4 s5)
qed

lemma example_pupil:
  "generate_pupil example_ext example_mask 3 (example_opd, [Num 1, Num 2, Num 3, Num 4, Num 5]) = Inr [[(Num 0, Num 0), (Num (6004799503160661 / 18014398509481984), Num 0), (Num 0, Num 0)], [(Num (6004799503160661 / 9007199254740992), Num 0), (Num 1, Num 0), (Num (6004799503160661 / 4503599627370496), Num 0)], [(Num 0, Num 0), (Num (7505999378950827 / 4503599627370496), Num 0), (Num 0, Num 0)]]"
proof -
  have s1: "fl (6004799503160661 / 18014398509481984) = Num (6004799503160661 / 18014398509481984)"
    using fl_eval [of "-2" "6004799503160661 / 18014398509481984" 6004799503160661] by (simp add: rne_def)
  have s2: "fl (6004799503160661 / 9007199254740992) = Num (6004799503160661 / 9007199254740992)"
    using fl_eval [of "-1" "6004799503160661 / 9007199254740992" 6004799503160661] by (simp add: rne_def)
  have s3: "fl (1) = Num 1"
    using fl_eval [of "0" "1" 4503599627370496] by (simp add: rne_def)
  have s4: "fl (6004799503160661 / 4503599627370496) = Num (6004799503160661 / 4503599627370496)"
    using fl_eval [of "0" "6004799503160661 / 4503599627370496" 6004799503160661] by (simp add: rne_def)
  have s5: "fl (7505999378950827 / 4503599627370496) = Num (7505999378950827 / 4503599627370496)"
    using fl_eval [of "0" "7505999378950827 / 4503599627370496" 7505999378950827] by (simp add: rne_def)
  show ?thesis
    by (simp add: generate_pupil_def example_normalized example_opd_def example_mask_def np_map2_def
        pupil_sample_def c64_mul_one np_mask_assign_def np_reshape_def bind_err_def
        numeral_3_eq_3 s1 s2 s3 s4 s5)
qed

lemma example_pupil_tenth:
  "generate_pupil example_ext example_mask 3 (example_opd, [Num (3602879701896397 / 36028797018963968), Num (3602879701896397 / 18014398509481984), Num (1351079888211149 / 4503599627370496), Num (3602879701896397 / 9007199254740992), Num (1 / 2)]) = Inr [[(Num 0, Num 0), (Num (3002399751580331 / 9007199254740992), Num 0), (Num 0, Num 0)], [(Num (3002399751580331 / 4503599627370496), Num 0), (Num (4503599627370497 / 4503599627370496), Num 0), (Num (3002399751580331 / 2251799813685248), Num 0)], [(Num 0, Num 0), (Num (7505999378950827 / 4503599627370496), Num 0), (Num 0, Num 0)]]"
proof -
  have s1: "fl (3002399751580331 / 9007199254740992) = Num (3002399751580331 / 9007199254740992)"
    using fl_eval [of "-2" "3002399751580331 / 9007199254740992" 6004799503160662] by (simp add: rne_def)
  have s2: "fl (3002399751580331 / 4503599627370496) = Num (3002399751580331 / 4503599627370496)"
    using fl_eval [of "-1" "3002399751580331 / 4503599627370496" 6004799503160662] by (simp add: rne_def)
  have s3: "fl (4503599627370497 / 4503599627370496) = Num (4503599627370497 / 4503599627370496)"
    using fl_eval [of "0" "4503599627370497 / 4503599627370496" 4503599627370497] by (simp add: rne_def)
  have s4: "fl (3002399751580331 / 2251799813685248) = Num (3002399751580331 / 2251799813685248)"
    using fl_eval [of "0" "3002399751580331 / 2251799813685248" 6004799503160662] by (simp add: rne_def)
  have s5: "fl (7505999378950827 / 4503599627370496) = Num (7505999378950827 / 4503599627370496)"
    using fl_eval [of "0" "7505999378950827 / 4503599627370496" 7505999378950827] by (simp add: rne_def)
  show ?thesis
    by (simp add: generate_pupil_def example_normalized_tenth example_opd_def example_mask_def np_map2_def
        pupil_sample_def c64_mul_one np_mask_assign_def np_reshape_def bind_err_def
        numeral_3_eq_3 s1 s2 s3 s4 s5)
qed

text \<open>
  Claim C10. The claim says that for every positive scalar \<open>c\<close> the pupils, and hence
  the point-spread function, are exactly the same for the amplitudes \<open>c * A\<close> as for
  \<open>A\<close>. What holds of the code is this: for a scalar that is a power of two,
  \<open>c = 2 powi k\<close>, and amplitudes of any one wavelength \<open>j\<close> that are float64 numbers,
  each zero or between \<open>2 powi (- 900)\<close> and \<open>2 powi 900\<close> together with its multiple by
  \<open>c\<close>, on at most \<open>2 ^ 100\<close> samples and with neither mean overflowing, the pupils
  are exactly the same, and so is whatever \<^verbatim>\<open>_compute_psf\<close> makes of them. For a
  scalar that is not a power of two the roundings differ; see below.
\<close>

theorem pupil_pow2_scale_invariant:
  assumes "\<forall>v\<in>set (snd (data ! j)). amplitude_in_range k v"
    and "length (snd (data ! j)) \<le> 2 ^ 100"
    and "np_mean (snd (data ! j)) \<noteq> PInf"
    and "np_mean (np_scale (Num (2 powi k)) (snd (data ! j))) \<noteq> PInf"
  shows "generate_pupils ext msk num_rays
           (data[j := (fst (data ! j), np_scale (Num (2 powi k)) (snd (data ! j)))])
           = generate_pupils ext msk num_rays data
       \<and> FFTPSF_psf compute_psf ext msk num_rays
           (data[j := (fst (data ! j), np_scale (Num (2 powi k)) (snd (data ! j)))])
           = FFTPSF_psf compute_psf ext msk num_rays data"
proof -
  have "generate_pupil ext msk num_rays (fst (data ! j), np_scale (Num (2 powi k)) (snd (data ! j)))
      = generate_pupil ext msk num_rays (data ! j)"
    using generate_pupil_pow2 [OF assms, of ext msk num_rays "fst (data ! j)"] by simp
  then have "generate_pupils ext msk num_rays
      (data[j := (fst (data ! j), np_scale (Num (2 powi k)) (snd (data ! j)))])
      = generate_pupils ext msk num_rays data"
    unfolding generate_pupils_def by (rule map_err_update)
  then show ?thesis by (simp add: FFTPSF_psf_def)
qed

theorem pupil_pow2_scale_invariant_witness:
  "generate_pupils example_ext example_mask 3 [(example_opd, np_scale (Num 2) [Num 1, Num 2, Num 3, Num 4, Num 5])]
     = generate_pupils example_ext example_mask 3 [(example_opd, [Num 1, Num 2, Num 3, Num 4, Num 5])]
   \<and> FFTPSF_psf Inr example_ext example_mask 3 [(example_opd, np_scale (Num 2) [Num 1, Num 2, Num 3, Num 4, Num 5])]
     = FFTPSF_psf Inr example_ext example_mask 3 [(example_opd, [Num 1, Num 2, Num 3, Num 4, Num 5])]"
  using pupil_pow2_scale_invariant [of "[(example_opd, [Num 1, Num 2, Num 3, Num 4, Num 5])]" 0 1 example_ext example_mask 3 Inr]
    example_in_range
  by (simp add: example_mean example_scaled_two example_mean_two)

text \<open>
  With \<open>c\<close> the float64 number written \<^verbatim>\<open>0.1\<close> and the amplitudes 1 to 5 the pupils
  differ: the normalized amplitudes are 0.33333333333333337, 0.6666666666666667,
  1.0000000000000002, 1.3333333333333335, 1.6666666666666667 for \<open>c * A\<close> and
  0.3333333333333333, 0.6666666666666666, 1.0, 1.3333333333333333, 1.6666666666666667
  for \<open>A\<close>.
\<close>

theorem pupil_not_scale_invariant:
  "generate_pupils example_ext example_mask 3
      [(example_opd, np_scale (Num (3602879701896397 / 36028797018963968)) [Num 1, Num 2, Num 3, Num 4, Num 5])]
     \<noteq> generate_pupils example_ext example_mask 3 [(example_opd, [Num 1, Num 2, Num 3, Num 4, Num 5])]"
  by (simp add: generate_pupils_def example_scaled_tenth example_pupil example_pupil_tenth bind_err_def)

end
